theory Spec2Isabelle
  imports Complex_Main
begin

section \<open>Python values used by both modules\<close>

text \<open>
  A Python \<open>str\<close> is a sequence of Unicode code points, so it is modelled as a list of
  natural numbers. String literals of the source are written with \<open>lit\<close>, which maps
  an ASCII literal to its code points. Names that only ever occur as literals in the
  source (environment variable names, service names, agent names) stay HOL strings.
\<close>

type_synonym pystr = "nat list"

definition lit :: "string \<Rightarrow> pystr" where
  "lit s = map of_char s"

text \<open>
  Exceptions carry the part of the class hierarchy that the \<open>except\<close> clauses of the
  source distinguish, and the message that \<open>str(e)\<close> returns:
  \<open>RequestException\<close> is \<open>requests.exceptions.RequestException\<close> or a subclass,
  \<open>IndexError\<close>, \<open>AttributeError\<close>, \<open>ValueError\<close> and \<open>TypeError\<close> are the
  builtin classes with their subclasses,
  \<open>OtherException\<close> is any other subclass of \<open>Exception\<close>, and
  \<open>BaseExceptionOnly\<close> is a \<open>BaseException\<close> that is not an \<open>Exception\<close>
  (\<open>KeyboardInterrupt\<close>, \<open>SystemExit\<close>).
\<close>

datatype exn_class =
  RequestException | IndexError | AttributeError | ValueError | TypeError
  | OtherException | BaseExceptionOnly

datatype exn = Exn exn_class pystr

fun exn_class_of :: "exn \<Rightarrow> exn_class" where
  "exn_class_of (Exn c m) = c"

fun str_of_exn :: "exn \<Rightarrow> pystr" where
  "str_of_exn (Exn c m) = m"

text \<open>\<open>except requests.exceptions.RequestException\<close> and \<open>except Exception\<close>.\<close>

definition is_RequestException :: "exn \<Rightarrow> bool" where
  "is_RequestException e = (exn_class_of e = RequestException)"

definition is_Exception :: "exn \<Rightarrow> bool" where
  "is_Exception e = (exn_class_of e \<noteq> BaseExceptionOnly)"

text \<open>Truthiness of a value that is \<open>None\<close> or a \<open>str\<close>; the builtin \<open>all\<close>.\<close>

fun truthy :: "pystr option \<Rightarrow> bool" where
  "truthy None = False"
| "truthy (Some v) = (v \<noteq> [])"

definition py_all :: "pystr option list \<Rightarrow> bool" where
  "py_all vs = list_all truthy vs"

text \<open>\<open>s.rstrip(chars)\<close>: drop every trailing character that is in \<open>chars\<close>.\<close>

definition py_rstrip :: "pystr \<Rightarrow> pystr \<Rightarrow> pystr" where
  "py_rstrip chars s = rev (dropWhile (\<lambda>c. c \<in> set chars) (rev s))"

text \<open>
  \<open>str.isspace\<close> on one code point, as CPython's \<open>_PyUnicode_IsWhitespace\<close> lists
  them, and \<open>s.strip()\<close> with no argument.
\<close>

definition py_isspace :: "nat \<Rightarrow> bool" where
  "py_isspace c =
     ((9 \<le> c \<and> c \<le> 13) \<or> (28 \<le> c \<and> c \<le> 32) \<or> c = 133 \<or> c = 160
      \<or> c = 5760 \<or> (8192 \<le> c \<and> c \<le> 8202) \<or> c = 8232 \<or> c = 8233
      \<or> c = 8239 \<or> c = 8287 \<or> c = 12288)"

definition py_strip :: "pystr \<Rightarrow> pystr" where
  "py_strip s = rev (dropWhile py_isspace (rev (dropWhile py_isspace s)))"

text \<open>
  \<open>s.split(sep)\<close> for a separator of one character: every occurrence splits, and
  empty pieces are kept, so the result is never empty.
\<close>

fun py_split :: "nat \<Rightarrow> pystr \<Rightarrow> pystr list" where
  "py_split sep [] = [[]]"
| "py_split sep (c # cs) =
     (if c = sep then [] # py_split sep cs
      else (case py_split sep cs of
              [] \<Rightarrow> [[c]]
            | p # ps \<Rightarrow> (c # p) # ps))"

text \<open>\<open>s.split(sep, 1)\<close>: split at the first occurrence only.\<close>

definition py_split1 :: "nat \<Rightarrow> pystr \<Rightarrow> pystr list" where
  "py_split1 sep s =
     (if sep \<in> set s
      then [takeWhile (\<lambda>c. c \<noteq> sep) s, tl (dropWhile (\<lambda>c. c \<noteq> sep) s)]
      else [s])"

text \<open>
  \<open>dict(pairs)\<close> over a sequence of lists: each element must have exactly two items
  (\<open>ValueError\<close> otherwise); a later key replaces an earlier one.
\<close>

fun py_dict_from :: "(pystr \<rightharpoonup> pystr) \<Rightarrow> pystr list list \<Rightarrow> exn + (pystr \<rightharpoonup> pystr)" where
  "py_dict_from m [] = Inr m"
| "py_dict_from m (kv # rest) =
     (case kv of
        [k, v] \<Rightarrow> py_dict_from (m(k \<mapsto> v)) rest
      | _ \<Rightarrow> Inl (Exn ValueError (lit ''dictionary update sequence element has wrong length'')))"

definition py_dict :: "pystr list list \<Rightarrow> exn + (pystr \<rightharpoonup> pystr)" where
  "py_dict kvs = py_dict_from Map.empty kvs"

section \<open>The endpoint prober (test_endpoints.py)\<close>

subsection \<open>Environment, external services, output\<close>

text \<open>
  \<open>os.getenv(name)\<close> returns \<open>None\<close> or the value, so the process environment is a
  map from names to strings: the environment as it is after \<open>load_dotenv()\<close> has
  run at import time. The imports of the script are taken to succeed.
\<close>

type_synonym environ = "string \<rightharpoonup> pystr"

definition getenv :: "environ \<Rightarrow> string \<Rightarrow> pystr option" where
  "getenv env name = env name"

text \<open>
  Every call that leaves the process is recorded: the HTTP request of
  \<open>requests.get\<close> (URL, headers, timeout) and each call into the Azure SDK.
\<close>

datatype call =
  HttpGet pystr "(pystr \<times> pystr) list" int
  | DefaultAzureCredential
  | CosmosClient pystr
  | GetDatabaseClient pystr
  | DatabaseRead
  | BlobServiceClient pystr
  | GetContainerClient pystr
  | GetContainerProperties

datatype http_outcome = Response int | HttpRaises exn

text \<open>
  The external services are arbitrary: what a call does may depend on the call and on
  all calls made before it. An SDK call either returns or raises.
\<close>

record world =
  http_get :: "call list \<Rightarrow> pystr \<Rightarrow> (pystr \<times> pystr) list \<Rightarrow> http_outcome"
  sdk :: "call list \<Rightarrow> call \<Rightarrow> exn option"

text \<open>One constructor for each \<open>print\<close> statement of the script, with the values it formats.\<close>

datatype line =
  Accessible string int
  | ServerError string int
  | ConnectionFailed string pystr
  | MissingConfiguration string
  | CosmosAccessible pystr
  | CosmosFailed pystr
  | StorageAccessible pystr
  | StorageFailed pystr
  | AppInsightsValid
  | AppInsightsInvalid
  | AppInsightsParseFailed pystr
  | AgentConfigured string pystr
  | AgentNotConfigured string
  | Rule
  | Title
  | Blank
  | Summary
  | Passed int int
  | Failed int int
  | AllConfigured
  | NeedAttention

record state =
  out :: "line list"
  calls :: "call list"

definition print :: "line \<Rightarrow> state \<Rightarrow> state" where
  "print l s = s\<lparr>out := out s @ [l]\<rparr>"

text \<open>
  A check runs in a state and ends with a boolean (\<open>Inr\<close>) or with an exception that
  escapes it (\<open>Inl\<close>).
\<close>

type_synonym 'a prog = "state \<Rightarrow> (exn + 'a) \<times> state"

definition return :: "'a \<Rightarrow> 'a prog" where
  "return x s = (Inr x, s)"

definition bind :: "'a prog \<Rightarrow> ('a \<Rightarrow> 'b prog) \<Rightarrow> 'b prog" where
  "bind m f s = (case m s of (Inl e, s') \<Rightarrow> (Inl e, s') | (Inr x, s') \<Rightarrow> f x s')"

definition requests_get :: "world \<Rightarrow> pystr \<Rightarrow> (pystr \<times> pystr) list \<Rightarrow> int \<Rightarrow> state
    \<Rightarrow> http_outcome \<times> state" where
  "requests_get w url headers timeout s =
     (http_get w (calls s) url headers, s\<lparr>calls := calls s @ [HttpGet url headers timeout]\<rparr>)"

definition sdk_call :: "world \<Rightarrow> call \<Rightarrow> unit prog" where
  "sdk_call w c s =
     (case sdk w (calls s) c of
        None \<Rightarrow> (Inr (), s\<lparr>calls := calls s @ [c]\<rparr>)
      | Some e \<Rightarrow> (Inl e, s\<lparr>calls := calls s @ [c]\<rparr>))"

subsection \<open>The checks\<close>

definition test_endpoint :: "world \<Rightarrow> string \<Rightarrow> pystr \<Rightarrow> (pystr \<times> pystr) list \<Rightarrow> bool prog" where
  "test_endpoint w name url headers s =
     (case requests_get w url headers 10 s of
        (Response status_code, s1) \<Rightarrow>
          (if status_code < 500 then (Inr True, print (Accessible name status_code) s1)
           else (Inr False, print (ServerError name status_code) s1))
      | (HttpRaises e, s1) \<Rightarrow>
          (if is_RequestException e
           then (Inr False, print (ConnectionFailed name (take 100 (str_of_exn e))) s1)
           else (Inl e, s1)))"

definition test_azure_openai :: "environ \<Rightarrow> world \<Rightarrow> bool prog" where
  "test_azure_openai env w s =
     (let endpoint = getenv env ''AZURE_OPENAI_ENDPOINT'';
          api_key = getenv env ''AZURE_OPENAI_KEY'';
          api_version = getenv env ''AZURE_OPENAI_API_VERSION''
      in if \<not> py_all [endpoint, api_key, api_version]
         then (Inr False, print (MissingConfiguration ''Azure OpenAI'') s)
         else (case (endpoint, api_key, api_version) of
                 (Some e, Some k, Some v) \<Rightarrow>
                   test_endpoint w ''Azure OpenAI''
                     (py_rstrip (lit ''/'') e @ lit ''/openai/deployments?api-version='' @ v)
                     [(lit ''api-key'', k)] s
               | _ \<Rightarrow> (Inl (Exn AttributeError (lit ''rstrip'')), s)))"

definition test_ai_search :: "environ \<Rightarrow> world \<Rightarrow> bool prog" where
  "test_ai_search env w s =
     (let endpoint = getenv env ''SEARCH_ENDPOINT'';
          api_key = getenv env ''SEARCH_KEY'';
          index_name = getenv env ''INDEX_NAME''
      in if \<not> py_all [endpoint, api_key, index_name]
         then (Inr False, print (MissingConfiguration ''AI Search'') s)
         else (case (endpoint, api_key, index_name) of
                 (Some e, Some k, Some i) \<Rightarrow>
                   test_endpoint w ''AI Search''
                     (py_rstrip (lit ''/'') e @ lit ''/indexes/'' @ i
                        @ lit ''?api-version=2023-11-01'')
                     [(lit ''api-key'', k)] s
               | _ \<Rightarrow> (Inl (Exn AttributeError (lit ''rstrip'')), s)))"

text \<open>
  \<open>try: ... except Exception as e\<close> around a block: an exception of class
  \<open>Exception\<close> is handled, any other one escapes.
\<close>

definition try_except_Exception :: "'a prog \<Rightarrow> (exn \<Rightarrow> 'a prog) \<Rightarrow> 'a prog" where
  "try_except_Exception body handler s =
     (case body s of
        (Inl e, s') \<Rightarrow> (if is_Exception e then handler e s' else (Inl e, s'))
      | (Inr x, s') \<Rightarrow> (Inr x, s'))"

definition test_cosmos_db :: "environ \<Rightarrow> world \<Rightarrow> bool prog" where
  "test_cosmos_db env w s =
     (let endpoint = getenv env ''COSMOS_ENDPOINT'';
          database_name = getenv env ''DATABASE_NAME''
      in if \<not> py_all [endpoint, database_name]
         then (Inr False, print (MissingConfiguration ''Cosmos DB'') s)
         else (case (endpoint, database_name) of
                 (Some e, Some d) \<Rightarrow>
                   try_except_Exception
                     (bind (sdk_call w DefaultAzureCredential) (\<lambda>_.
                      bind (sdk_call w (CosmosClient e)) (\<lambda>_.
                      bind (sdk_call w (GetDatabaseClient d)) (\<lambda>_.
                      bind (sdk_call w DatabaseRead) (\<lambda>_.
                      (\<lambda>s'. (Inr True, print (CosmosAccessible d) s')))))))
                     (\<lambda>ex s'. (Inr False, print (CosmosFailed (take 100 (str_of_exn ex))) s'))
                     s
               | _ \<Rightarrow> (Inl (Exn AttributeError (lit ''None'')), s)))"

definition test_storage_account :: "environ \<Rightarrow> world \<Rightarrow> bool prog" where
  "test_storage_account env w s =
     (let storage_account_name = getenv env ''storage_account_name'';
          container_name = getenv env ''storage_container_name''
      in if \<not> py_all [storage_account_name, container_name]
         then (Inr False, print (MissingConfiguration ''Storage Account'') s)
         else (case (storage_account_name, container_name) of
                 (Some a, Some c) \<Rightarrow>
                   try_except_Exception
                     (let account_url = lit ''https://'' @ a @ lit ''.blob.core.windows.net''
                      in bind (sdk_call w DefaultAzureCredential) (\<lambda>_.
                         bind (sdk_call w (BlobServiceClient account_url)) (\<lambda>_.
                         bind (sdk_call w (GetContainerClient c)) (\<lambda>_.
                         bind (sdk_call w GetContainerProperties) (\<lambda>_.
                         (\<lambda>s'. (Inr True, print (StorageAccessible c) s')))))))
                     (\<lambda>ex s'. (Inr False, print (StorageFailed (take 100 (str_of_exn ex))) s'))
                     s
               | _ \<Rightarrow> (Inl (Exn AttributeError (lit ''None'')), s)))"

text \<open>
  The generator \<open>item.split("=", 1) for item in conn_string.split(";") if "=" in item\<close>
  and the dictionary built from it.
\<close>

definition conn_string_parts :: "pystr \<Rightarrow> exn + (pystr \<rightharpoonup> pystr)" where
  "conn_string_parts conn_string =
     py_dict (map (py_split1 61) (filter (\<lambda>item. 61 \<in> set item) (py_split 59 conn_string)))"

definition test_application_insights :: "environ \<Rightarrow> bool prog" where
  "test_application_insights env s =
     (let conn_string = getenv env ''APPLICATIONINSIGHTS_CONNECTION_STRING''
      in if \<not> truthy conn_string
         then (Inr False, print (MissingConfiguration ''Application Insights'') s)
         else (case conn_string of
                 Some cs \<Rightarrow>
                   try_except_Exception
                     (\<lambda>s'. case conn_string_parts cs of
                             Inl ex \<Rightarrow> (Inl ex, s')
                           | Inr parts \<Rightarrow>
                               (if lit ''InstrumentationKey'' \<in> dom parts
                                   \<and> lit ''IngestionEndpoint'' \<in> dom parts
                                then (Inr True, print AppInsightsValid s')
                                else (Inr False, print AppInsightsInvalid s')))
                     (\<lambda>ex s'. (Inr False, print (AppInsightsParseFailed (str_of_exn ex)) s'))
                     s
               | None \<Rightarrow> (Inl (Exn AttributeError (lit ''split'')), s)))"

text \<open>The \<open>agents\<close> dictionary, in insertion order, and the loop over its items.\<close>

definition agents :: "environ \<Rightarrow> (string \<times> pystr option) list" where
  "agents env =
     [(''Customer Loyalty'', getenv env ''customer_loyalty''),
      (''Inventory Agent'', getenv env ''inventory_agent''),
      (''Interior Designer'', getenv env ''interior_designer''),
      (''Cora (Shopper)'', getenv env ''cora''),
      (''Cart Manager'', getenv env ''cart_manager'')]"

fun agent_loop :: "(string \<times> pystr option) list \<Rightarrow> bool \<Rightarrow> state \<Rightarrow> bool \<times> state" where
  "agent_loop [] all_configured s = (all_configured, s)"
| "agent_loop ((name, agent_id) # rest) all_configured s =
     (case agent_id of
        Some a \<Rightarrow>
          (if a \<noteq> [] \<and> py_strip a \<noteq> []
           then agent_loop rest all_configured (print (AgentConfigured name (take 20 a)) s)
           else agent_loop rest
                  (if name = ''Customer Loyalty'' then False else all_configured)
                  (print (AgentNotConfigured name) s))
      | None \<Rightarrow>
          agent_loop rest
            (if name = ''Customer Loyalty'' then False else all_configured)
            (print (AgentNotConfigured name) s))"

definition test_agent_ids :: "environ \<Rightarrow> bool prog" where
  "test_agent_ids env s =
     (case agent_loop (agents env) True s of (all_configured, s') \<Rightarrow> (Inr all_configured, s'))"

subsection \<open>The main entry point\<close>

text \<open>
  The dictionary literal evaluates the six checks in order; an exception that escapes
  one of them ends the evaluation there.
\<close>

definition run_checks :: "environ \<Rightarrow> world \<Rightarrow> ((string \<times> bool) list) prog" where
  "run_checks env w =
     bind (test_azure_openai env w) (\<lambda>r1.
     bind (test_ai_search env w) (\<lambda>r2.
     bind (test_cosmos_db env w) (\<lambda>r3.
     bind (test_storage_account env w) (\<lambda>r4.
     bind (test_application_insights env) (\<lambda>r5.
     bind (test_agent_ids env) (\<lambda>r6.
     return [(''Azure OpenAI'', r1), (''AI Search'', r2), (''Cosmos DB'', r3),
             (''Storage Account'', r4), (''Application Insights'', r5),
             (''Agent IDs'', r6)]))))))"

definition summarize :: "(string \<times> bool) list \<Rightarrow> int prog" where
  "summarize results s =
     (let s1 = print Rule (print Summary (print Rule (print Blank s)));
          passed = int (length (filter (\<lambda>v. v) (map snd results)));
          total = int (length results);
          s2 = print (Failed (total - passed) total) (print (Passed passed total) s1)
      in if list_all (\<lambda>v. v) (map snd results)
         then (Inr 0, print AllConfigured s2)
         else (Inr 1, print NeedAttention s2))"

definition main :: "environ \<Rightarrow> world \<Rightarrow> int prog" where
  "main env w s =
     bind (run_checks env w) summarize
       (print Blank (print Rule (print Title (print Rule s))))"

section \<open>The fallback caller (services, fallback service)\<close>

subsection \<open>Requests, responses, log\<close>

text \<open>
  The keyword arguments of \<open>llm_client.chat.completions.create\<close>. An optional
  argument that the call does not pass is \<open>None\<close>; \<open>stop=None\<close> passes the value
  \<open>None\<close> explicitly, which is \<open>Some None\<close>. The float literals \<open>0.7\<close> and
  \<open>0.95\<close> are passed on untouched and are written as the numbers they denote.
\<close>

record content_block =
  block_type :: pystr
  block_text :: pystr

record message =
  role :: pystr
  content :: "content_block list"

record request =
  model :: pystr
  messages :: "message list"
  temperature :: real
  top_p :: "real option"
  frequency_penalty :: "int option"
  presence_penalty :: "int option"
  stop :: "pystr list option option"
  stream :: bool

record token_usage =
  prompt_tokens :: int
  completion_tokens :: int
  total_tokens :: int

record choice =
  message_content :: "pystr option"

record completion =
  choices :: "choice list"
  usage :: "token_usage option"

text \<open>
  The client is arbitrary: it answers a request, given the requests made before it,
  with a completion or by raising.
\<close>

type_synonym llm_client = "request list \<Rightarrow> request \<Rightarrow> exn + completion"

datatype log_entry =
  InfoCalling pystr
  | InfoCompleted pystr real "int option" "int option" "int option" real real
  | Timing string real pystr

text \<open>
  The state of a call: the requests sent to the endpoint, the log, and how often the
  clock was read. \<open>time.time()\<close> reads a clock that is a parameter of the model.
\<close>

record fstate =
  sent :: "request list"
  logs :: "log_entry list"
  clock_reads :: nat

definition time_time :: "(nat \<Rightarrow> real) \<Rightarrow> fstate \<Rightarrow> real \<times> fstate" where
  "time_time clock s = (clock (clock_reads s), s\<lparr>clock_reads := Suc (clock_reads s)\<rparr>)"

definition logger_info :: "log_entry \<Rightarrow> fstate \<Rightarrow> fstate" where
  "logger_info l s = s\<lparr>logs := logs s @ [l]\<rparr>"

text \<open>
  Modelled from the spec: \<open>log_timing\<close> of \<open>utils.log_utils\<close>, which is not among the
  source files. The spec says that it emits one timing log line with the operation
  name, the elapsed seconds and the deployment used.
\<close>

definition log_timing :: "(nat \<Rightarrow> real) \<Rightarrow> string \<Rightarrow> real \<Rightarrow> pystr \<Rightarrow> fstate \<Rightarrow> fstate" where
  "log_timing clock name start_time detail s =
     (case time_time clock s of
        (now, s1) \<Rightarrow> logger_info (Timing name (now - start_time) detail) s1)"

definition completions_create :: "llm_client \<Rightarrow> request \<Rightarrow> fstate \<Rightarrow> (exn + completion) \<times> fstate" where
  "completions_create llm_client req s = (llm_client (sent s) req, s\<lparr>sent := sent s @ [req]\<rparr>)"

text \<open>\<open>completion.choices[0].message.content\<close>; the index raises on an empty list.\<close>

definition first_choice_content :: "completion \<Rightarrow> exn + pystr option" where
  "first_choice_content c =
     (case choices c of
        [] \<Rightarrow> Inl (Exn IndexError (lit ''list index out of range''))
      | ch # _ \<Rightarrow> Inr (message_content ch))"

definition chat_prompt :: "pystr \<Rightarrow> message list" where
  "chat_prompt fallback_prompt =
     [\<lparr>role = lit ''system'',
       content = [\<lparr>block_type = lit ''text'', block_text = fallback_prompt\<rparr>]\<rparr>]"

subsection \<open>The two callers\<close>

definition call_fallback_request :: "pystr \<Rightarrow> pystr \<Rightarrow> request" where
  "call_fallback_request fallback_prompt gpt_deployment =
     \<lparr>model = gpt_deployment, messages = chat_prompt fallback_prompt, temperature = 0.7,
      top_p = None, frequency_penalty = None, presence_penalty = None, stop = None,
      stream = False\<rparr>"

definition call_fallback :: "(nat \<Rightarrow> real) \<Rightarrow> llm_client \<Rightarrow> pystr \<Rightarrow> pystr \<Rightarrow> fstate
    \<Rightarrow> (exn + pystr option) \<times> fstate" where
  "call_fallback clock llm_client fallback_prompt gpt_deployment s =
     (case time_time clock s of
        (start_time, s1) \<Rightarrow>
          (case completions_create llm_client
                  (call_fallback_request fallback_prompt gpt_deployment) s1 of
             (Inl e, s2) \<Rightarrow> (Inl e, s2)
           | (Inr completion, s2) \<Rightarrow>
               (case first_choice_content completion of
                  Inl e \<Rightarrow> (Inl e, s2)
                | Inr result \<Rightarrow>
                    (Inr result,
                     log_timing clock ''Fallback Call'' start_time
                       (lit ''Model: '' @ gpt_deployment) s2))))"

definition call_fallback_default_deployment :: pystr where
  "call_fallback_default_deployment = lit ''gpt-5-mini''"

definition cora_fallback_request :: "pystr \<Rightarrow> pystr \<Rightarrow> request" where
  "cora_fallback_request fallback_prompt gpt_deployment =
     \<lparr>model = gpt_deployment, messages = chat_prompt fallback_prompt, temperature = 0.7,
      top_p = Some 0.95, frequency_penalty = Some 0, presence_penalty = Some 0,
      stop = Some None, stream = False\<rparr>"

text \<open>
  The function that lines 40 to 85 define, before the decorator of line 39 is applied
  to it.
\<close>

definition cora_fallback_undecorated :: "(nat \<Rightarrow> real) \<Rightarrow> llm_client \<Rightarrow> pystr \<Rightarrow> pystr \<Rightarrow> fstate
    \<Rightarrow> (exn + pystr option) \<times> fstate" where
  "cora_fallback_undecorated clock llm_client fallback_prompt gpt_deployment s =
     (case time_time clock s of
        (start_time, s1) \<Rightarrow>
          (case completions_create llm_client
                  (cora_fallback_request fallback_prompt gpt_deployment)
                  (logger_info (InfoCalling gpt_deployment) s1) of
             (Inl e, s2) \<Rightarrow> (Inl e, s2)
           | (Inr completion, s2) \<Rightarrow>
               (case first_choice_content completion of
                  Inl e \<Rightarrow> (Inl e, s2)
                | Inr result \<Rightarrow>
                    (case time_time clock s2 of
                       (now, s3) \<Rightarrow>
                         (let execution_time = now - start_time;
                              s4 = logger_info
                                     (InfoCompleted gpt_deployment execution_time
                                        (map_option prompt_tokens (usage completion))
                                        (map_option completion_tokens (usage completion))
                                        (map_option total_tokens (usage completion))
                                        0.7 0.95) s3
                          in (Inr result,
                              log_timing clock ''Cora Fallback Call'' start_time
                                (lit ''Model: '' @ gpt_deployment) s4))))))"

text \<open>
  The decorator of line 39. \<open>trace_function\<close> of \<open>azure.ai.agents.telemetry\<close> is a
  decorator factory:
  \<^verbatim>\<open>def trace_function(span_name=None):
      def decorator(func): ...; return wrapper
      return decorator\<close>
  Line 39 writes \<open>@trace_function\<close> without parentheses, so the function of lines
  40 to 85 is passed as \<open>span_name\<close> and the module-level name \<open>cora_fallback\<close>
  is bound to the inner \<open>decorator\<close>, a function of one positional parameter.
  A call of a Python function with another number of arguments raises
  \<open>TypeError\<close> before its body runs; with one argument \<open>decorator\<close> returns
  the wrapper function.
\<close>

datatype traced = Wrapper

definition trace_function_decorator :: "nat \<Rightarrow> fstate \<Rightarrow> (exn + traced) \<times> fstate" where
  "trace_function_decorator nargs s =
     (if nargs = 1 then (Inr Wrapper, s)
      else (Inl (Exn TypeError
              (lit ''trace_function.<locals>.decorator() takes 1 positional argument but ''
                 @ [48 + nargs] @ lit '' were given'')), s))"

text \<open>
  \<open>cora_fallback\<close> as a caller finds it: called with a client, a prompt and,
  optionally, a deployment name (\<open>None\<close> when the caller leaves the default), that
  is with two or three arguments.
\<close>

definition cora_fallback :: "(nat \<Rightarrow> real) \<Rightarrow> llm_client \<Rightarrow> pystr \<Rightarrow> pystr option \<Rightarrow> fstate
    \<Rightarrow> (exn + traced) \<times> fstate" where
  "cora_fallback clock llm_client fallback_prompt gpt_deployment s =
     trace_function_decorator (case gpt_deployment of None \<Rightarrow> 2 | Some d \<Rightarrow> 3) s"

definition cora_fallback_default_deployment :: pystr where
  "cora_fallback_default_deployment = lit ''Phi-4''"

section \<open>Concrete inputs\<close>

text \<open>
  Worlds and clients that answer every request alike, the state of a fresh process,
  and environments: one in which every check finds its configuration, and some that
  set only a few variables.
\<close>

definition world_status :: "int \<Rightarrow> world" where
  "world_status st = \<lparr>http_get = (\<lambda>h u hd. Response st), sdk = (\<lambda>h c. None)\<rparr>"

definition world_raising :: "exn \<Rightarrow> world" where
  "world_raising e = \<lparr>http_get = (\<lambda>h u hd. HttpRaises e), sdk = (\<lambda>h c. Some e)\<rparr>"

definition init_state :: state where
  "init_state = \<lparr>out = [], calls = []\<rparr>"

definition full_env :: environ where
  "full_env = map_of
     [(''AZURE_OPENAI_ENDPOINT'', lit ''https://oai.example/''),
      (''AZURE_OPENAI_KEY'', lit ''k1''),
      (''AZURE_OPENAI_API_VERSION'', lit ''2024-02-01''),
      (''SEARCH_ENDPOINT'', lit ''https://search.example''),
      (''SEARCH_KEY'', lit ''k2''),
      (''INDEX_NAME'', lit ''idx''),
      (''COSMOS_ENDPOINT'', lit ''https://cosmos.example''),
      (''DATABASE_NAME'', lit ''db''),
      (''storage_account_name'', lit ''acct''),
      (''storage_container_name'', lit ''images''),
      (''APPLICATIONINSIGHTS_CONNECTION_STRING'',
         lit ''InstrumentationKey=X;IngestionEndpoint=Y''),
      (''customer_loyalty'', lit ''asst_1'')]"

definition loyalty_only_env :: environ where
  "loyalty_only_env = map_of [(''customer_loyalty'', lit ''asst_1'')]"

definition blank_loyalty_env :: environ where
  "blank_loyalty_env = map_of
     [(''customer_loyalty'', lit ''  ''), (''inventory_agent'', lit ''asst_2''),
      (''interior_designer'', lit ''asst_3''), (''cora'', lit ''asst_4''),
      (''cart_manager'', lit ''asst_5'')]"

definition app_insights_env :: "pystr \<Rightarrow> environ" where
  "app_insights_env cs = map_of [(''APPLICATIONINSIGHTS_CONNECTION_STRING'', cs)]"

definition client_reply :: "pystr \<Rightarrow> llm_client" where
  "client_reply txt = (\<lambda>h r. Inr \<lparr>choices = [\<lparr>message_content = Some txt\<rparr>], usage = None\<rparr>)"

definition client_raising :: "exn \<Rightarrow> llm_client" where
  "client_raising e = (\<lambda>h r. Inl e)"

definition init_fstate :: fstate where
  "init_fstate = \<lparr>sent = [], logs = [], clock_reads = 0\<rparr>"

definition wall_clock :: "nat \<Rightarrow> real" where
  "wall_clock n = real n"

section \<open>Notions used in the statements\<close>

text \<open>
  What the claim about the telemetry check speaks of, written from its words and not
  from the code: a semicolon-delimited string is its items joined with \<open>;\<close>
  (code point 59), and a key is present when some item starts with the key followed
  by \<open>=\<close> (code point 61).
\<close>

fun semicolon_delimited :: "pystr list \<Rightarrow> pystr" where
  "semicolon_delimited [] = []"
| "semicolon_delimited [item] = item"
| "semicolon_delimited (item # items) = item @ 59 # semicolon_delimited items"

definition has_key :: "pystr \<Rightarrow> pystr list \<Rightarrow> bool" where
  "has_key k items = list_ex (\<lambda>item. take (Suc (length k)) item = k @ [61]) items"

section \<open>Properties of the endpoint prober\<close>

lemma test_endpoint_response:
  "http_get w (calls s) url headers = Response st \<Longrightarrow>
   fst (test_endpoint w name url headers s) = Inr (st < 500)"
  by (simp add: test_endpoint_def requests_get_def)

lemma test_endpoint_transport:
  "http_get w (calls s) url headers = HttpRaises e \<Longrightarrow> is_RequestException e \<Longrightarrow>
   fst (test_endpoint w name url headers s) = Inr False"
  by (simp add: test_endpoint_def requests_get_def)

lemma py_all3: "py_all [a, b, c] = (truthy a \<and> truthy b \<and> truthy c)"
  by (simp add: py_all_def)

lemma py_all2: "py_all [a, b] = (truthy a \<and> truthy b)"
  by (simp add: py_all_def)

lemma truthy_iff: "truthy v = (\<exists>x. v = Some x \<and> x \<noteq> [])"
  by (cases v) auto

lemma test_azure_openai_configured:
  assumes "env ''AZURE_OPENAI_ENDPOINT'' = Some e" "e \<noteq> []"
    "env ''AZURE_OPENAI_KEY'' = Some k" "k \<noteq> []"
    "env ''AZURE_OPENAI_API_VERSION'' = Some v" "v \<noteq> []"
  shows "test_azure_openai env w s =
     test_endpoint w ''Azure OpenAI''
       (py_rstrip (lit ''/'') e @ lit ''/openai/deployments?api-version='' @ v)
       [(lit ''api-key'', k)] s"
  using assms by (simp add: test_azure_openai_def getenv_def py_all3)

lemma test_ai_search_configured:
  assumes "env ''SEARCH_ENDPOINT'' = Some e" "e \<noteq> []"
    "env ''SEARCH_KEY'' = Some k" "k \<noteq> []"
    "env ''INDEX_NAME'' = Some i" "i \<noteq> []"
  shows "test_ai_search env w s =
     test_endpoint w ''AI Search''
       (py_rstrip (lit ''/'') e @ lit ''/indexes/'' @ i @ lit ''?api-version=2023-11-01'')
       [(lit ''api-key'', k)] s"
  using assms by (simp add: test_ai_search_def getenv_def py_all3)

lemma test_azure_openai_missing:
  "\<not> (truthy (env ''AZURE_OPENAI_ENDPOINT'') \<and> truthy (env ''AZURE_OPENAI_KEY'')
      \<and> truthy (env ''AZURE_OPENAI_API_VERSION'')) \<Longrightarrow>
   test_azure_openai env w s = (Inr False, print (MissingConfiguration ''Azure OpenAI'') s)"
  by (simp add: test_azure_openai_def getenv_def py_all3 Let_def)

lemma test_ai_search_missing:
  "\<not> (truthy (env ''SEARCH_ENDPOINT'') \<and> truthy (env ''SEARCH_KEY'')
      \<and> truthy (env ''INDEX_NAME'')) \<Longrightarrow>
   test_ai_search env w s = (Inr False, print (MissingConfiguration ''AI Search'') s)"
  by (simp add: test_ai_search_def getenv_def py_all3 Let_def)

lemma test_cosmos_db_missing:
  "\<not> (truthy (env ''COSMOS_ENDPOINT'') \<and> truthy (env ''DATABASE_NAME'')) \<Longrightarrow>
   test_cosmos_db env w s = (Inr False, print (MissingConfiguration ''Cosmos DB'') s)"
  by (simp add: test_cosmos_db_def getenv_def py_all2 Let_def)

lemma test_storage_account_missing:
  "\<not> (truthy (env ''storage_account_name'') \<and> truthy (env ''storage_container_name'')) \<Longrightarrow>
   test_storage_account env w s = (Inr False, print (MissingConfiguration ''Storage Account'') s)"
  by (simp add: test_storage_account_def getenv_def py_all2 Let_def)

lemma test_application_insights_missing:
  "\<not> truthy (env ''APPLICATIONINSIGHTS_CONNECTION_STRING'') \<Longrightarrow>
   test_application_insights env s =
     (Inr False, print (MissingConfiguration ''Application Insights'') s)"
  by (simp add: test_application_insights_def getenv_def Let_def)

lemma calls_print [simp]: "calls (print l s) = calls s"
  by (simp add: print_def)

lemma out_print [simp]: "out (print l s) = out s @ [l]"
  by (simp add: print_def)

text \<open>
  Claim C2. For the two raw HTTP probes, the shared endpoint test returns true for
  every response whose status code is under 500 and false for every status of 500 or
  above and for every transport exception (\<open>RequestException\<close>); for the
  search-index probe a 404 gives true and a 500 gives false.
\<close>

theorem http_probe_status_policy:
  "(http_get w (calls s) url headers = Response st \<longrightarrow>
      fst (test_endpoint w name url headers s) = Inr (st < 500))
   \<and> (http_get w (calls s) url headers = HttpRaises e \<and> is_RequestException e \<longrightarrow>
      fst (test_endpoint w name url headers s) = Inr False)
   \<and> (truthy (env ''AZURE_OPENAI_ENDPOINT'') \<and> truthy (env ''AZURE_OPENAI_KEY'')
        \<and> truthy (env ''AZURE_OPENAI_API_VERSION'') \<longrightarrow>
        ((\<forall>u hd. http_get w (calls s) u hd = Response st) \<longrightarrow>
           fst (test_azure_openai env w s) = Inr (st < 500))
        \<and> ((\<forall>u hd. http_get w (calls s) u hd = HttpRaises e) \<and> is_RequestException e \<longrightarrow>
           fst (test_azure_openai env w s) = Inr False))
   \<and> (truthy (env ''SEARCH_ENDPOINT'') \<and> truthy (env ''SEARCH_KEY'')
        \<and> truthy (env ''INDEX_NAME'') \<longrightarrow>
        ((\<forall>u hd. http_get w (calls s) u hd = Response st) \<longrightarrow>
           fst (test_ai_search env w s) = Inr (st < 500))
        \<and> ((\<forall>u hd. http_get w (calls s) u hd = HttpRaises e) \<and> is_RequestException e \<longrightarrow>
           fst (test_ai_search env w s) = Inr False)
        \<and> ((\<forall>u hd. http_get w (calls s) u hd = Response 404) \<longrightarrow>
           fst (test_ai_search env w s) = Inr True)
        \<and> ((\<forall>u hd. http_get w (calls s) u hd = Response 500) \<longrightarrow>
           fst (test_ai_search env w s) = Inr False))"
proof (intro conjI impI)
  show "fst (test_endpoint w name url headers s) = Inr (st < 500)"
    if "http_get w (calls s) url headers = Response st"
    using that by (rule test_endpoint_response)
  show "fst (test_endpoint w name url headers s) = Inr False"
    if "http_get w (calls s) url headers = HttpRaises e \<and> is_RequestException e"
    using that by (simp add: test_endpoint_transport)
next
  assume cfg: "truthy (env ''AZURE_OPENAI_ENDPOINT'') \<and> truthy (env ''AZURE_OPENAI_KEY'')
        \<and> truthy (env ''AZURE_OPENAI_API_VERSION'')"
  then obtain ep k v where eq: "env ''AZURE_OPENAI_ENDPOINT'' = Some ep" "ep \<noteq> []"
    "env ''AZURE_OPENAI_KEY'' = Some k" "k \<noteq> []"
    "env ''AZURE_OPENAI_API_VERSION'' = Some v" "v \<noteq> []"
    by (auto simp: truthy_iff)
  note run = test_azure_openai_configured [OF eq]
  show "fst (test_azure_openai env w s) = Inr (st < 500)"
    if "\<forall>u hd. http_get w (calls s) u hd = Response st"
    using that by (simp add: run test_endpoint_response)
  show "fst (test_azure_openai env w s) = Inr False"
    if "(\<forall>u hd. http_get w (calls s) u hd = HttpRaises e) \<and> is_RequestException e"
    using that by (simp add: run test_endpoint_transport)
next
  assume cfg: "truthy (env ''SEARCH_ENDPOINT'') \<and> truthy (env ''SEARCH_KEY'')
        \<and> truthy (env ''INDEX_NAME'')"
  then obtain ep k i where eq: "env ''SEARCH_ENDPOINT'' = Some ep" "ep \<noteq> []"
    "env ''SEARCH_KEY'' = Some k" "k \<noteq> []"
    "env ''INDEX_NAME'' = Some i" "i \<noteq> []"
    by (auto simp: truthy_iff)
  note run = test_ai_search_configured [OF eq]
  show "fst (test_ai_search env w s) = Inr (st < 500)"
    if "\<forall>u hd. http_get w (calls s) u hd = Response st"
    using that by (simp add: run test_endpoint_response)
  show "fst (test_ai_search env w s) = Inr False"
    if "(\<forall>u hd. http_get w (calls s) u hd = HttpRaises e) \<and> is_RequestException e"
    using that by (simp add: run test_endpoint_transport)
  show "fst (test_ai_search env w s) = Inr True"
    if "\<forall>u hd. http_get w (calls s) u hd = Response 404"
    using that by (simp add: run test_endpoint_response)
  show "fst (test_ai_search env w s) = Inr False"
    if "\<forall>u hd. http_get w (calls s) u hd = Response 500"
    using that by (simp add: run test_endpoint_response)
qed

lemma full_env_simps:
  "full_env ''SEARCH_ENDPOINT'' = Some (lit ''https://search.example'')"
  "full_env ''SEARCH_KEY'' = Some (lit ''k2'')"
  "full_env ''INDEX_NAME'' = Some (lit ''idx'')"
  by (simp_all add: full_env_def)

theorem http_probe_status_policy_witness:
  "fst (test_endpoint (world_status 401) ''AI Search'' (lit ''u'') [] init_state) = Inr True
   \<and> fst (test_endpoint (world_status 503) ''AI Search'' (lit ''u'') [] init_state) = Inr False
   \<and> fst (test_ai_search full_env (world_status 404) init_state) = Inr True
   \<and> fst (test_ai_search full_env (world_status 500) init_state) = Inr False
   \<and> fst (test_ai_search full_env (world_raising (Exn RequestException (lit ''timeout'')))
        init_state) = Inr False"
  using http_probe_status_policy [of "world_status 401" init_state "lit ''u''" "[]" 401 "''AI Search''"
       "Exn RequestException (lit ''timeout'')" full_env]
    http_probe_status_policy [of "world_status 503" init_state "lit ''u''" "[]" 503 "''AI Search''"
       "Exn RequestException (lit ''timeout'')" full_env]
    http_probe_status_policy [of "world_status 404" init_state "lit ''u''" "[]" 404 "''AI Search''"
       "Exn RequestException (lit ''timeout'')" full_env]
    http_probe_status_policy [of "world_status 500" init_state "lit ''u''" "[]" 500 "''AI Search''"
       "Exn RequestException (lit ''timeout'')" full_env]
    http_probe_status_policy [of "world_raising (Exn RequestException (lit ''timeout''))"
       init_state "lit ''u''" "[]" 0 "''AI Search''"
       "Exn RequestException (lit ''timeout'')" full_env]
  by (simp add: world_status_def world_raising_def full_env_simps lit_def
        is_RequestException_def)

lemma agent_loop_calls: "calls (snd (agent_loop xs b s)) = calls s"
proof (induction xs arbitrary: b s)
  case Nil
  show ?case by simp
next
  case (Cons x xs)
  obtain n v where x: "x = (n, v)" by (cases x)
  show ?case
    by (cases v) (simp_all add: x Cons.IH)
qed

lemma agent_loop_other:
  "''Customer Loyalty'' \<notin> fst ` set xs \<Longrightarrow> fst (agent_loop xs b s) = b"
proof (induction xs arbitrary: b s)
  case Nil
  show ?case by simp
next
  case (Cons x xs)
  obtain n v where x: "x = (n, v)" by (cases x)
  from Cons.prems have n: "n \<noteq> ''Customer Loyalty''" and xs: "''Customer Loyalty'' \<notin> fst ` set xs"
    by (auto simp: x)
  show ?case
    by (cases v) (simp_all add: x n Cons.IH [OF xs])
qed

lemma py_strip_empty_iff: "(py_strip a = []) = list_all py_isspace a"
proof
  assume "py_strip a = []"
  then have "\<forall>x\<in>set (dropWhile py_isspace a). py_isspace x"
    by (simp add: py_strip_def)
  then have "dropWhile py_isspace a = []"
    by (metis hd_dropWhile hd_in_set)
  then show "list_all py_isspace a"
    by (simp add: list_all_iff)
next
  assume "list_all py_isspace a"
  then have d: "dropWhile py_isspace a = []"
    by (simp add: list_all_iff)
  show "py_strip a = []"
    unfolding py_strip_def d by simp
qed

lemma agent_blank_iff: "(a \<noteq> [] \<and> py_strip a \<noteq> []) = (\<not> list_all py_isspace a)"
  by (cases a) (auto simp: py_strip_empty_iff)

lemma test_agent_ids_result:
  "fst (test_agent_ids env s) =
     Inr (case env ''customer_loyalty'' of None \<Rightarrow> False | Some a \<Rightarrow> \<not> list_all py_isspace a)"
proof -
  define rest where "rest = [(''Inventory Agent'', getenv env ''inventory_agent''),
      (''Interior Designer'', getenv env ''interior_designer''),
      (''Cora (Shopper)'', getenv env ''cora''),
      (''Cart Manager'', getenv env ''cart_manager'')]"
  have rest: "fst (agent_loop rest b s') = b" for b s'
    by (rule agent_loop_other) (simp add: rest_def)
  have ag: "agents env = (''Customer Loyalty'', env ''customer_loyalty'') # rest"
    by (simp add: agents_def getenv_def rest_def)
  have res: "fst (test_agent_ids env s) = Inr (fst (agent_loop (agents env) True s))"
    by (simp add: test_agent_ids_def split: prod.splits)
  show ?thesis
  proof (cases "env ''customer_loyalty''")
    case None
    then show ?thesis
      by (simp add: res ag rest)
  next
    case (Some a)
    show ?thesis
    proof (cases "list_all py_isspace a")
      case True
      with agent_blank_iff [of a] have "\<not> (a \<noteq> [] \<and> py_strip a \<noteq> [])" by simp
      then show ?thesis using True
        by (simp add: res ag rest Some)
    next
      case False
      with agent_blank_iff [of a] have "a \<noteq> [] \<and> py_strip a \<noteq> []" by simp
      then show ?thesis using False
        by (simp add: res ag rest Some)
    qed
  qed
qed

lemma test_agent_ids_calls: "calls (snd (test_agent_ids env s)) = calls s"
proof -
  have "snd (test_agent_ids env s) = snd (agent_loop (agents env) True s)"
    by (simp add: test_agent_ids_def split: prod.splits)
  then show ?thesis
    by (simp add: agent_loop_calls)
qed

text \<open>
  Claim C3. For each of the six checks, whenever a required configuration value is
  absent from the environment, the check returns false and the record of external
  calls is left as it was.
\<close>

theorem missing_config_no_network:
  "((env ''AZURE_OPENAI_ENDPOINT'' = None \<or> env ''AZURE_OPENAI_KEY'' = None
       \<or> env ''AZURE_OPENAI_API_VERSION'' = None) \<longrightarrow>
      fst (test_azure_openai env w s) = Inr False
      \<and> calls (snd (test_azure_openai env w s)) = calls s)
   \<and> ((env ''SEARCH_ENDPOINT'' = None \<or> env ''SEARCH_KEY'' = None
       \<or> env ''INDEX_NAME'' = None) \<longrightarrow>
      fst (test_ai_search env w s) = Inr False
      \<and> calls (snd (test_ai_search env w s)) = calls s)
   \<and> ((env ''COSMOS_ENDPOINT'' = None \<or> env ''DATABASE_NAME'' = None) \<longrightarrow>
      fst (test_cosmos_db env w s) = Inr False
      \<and> calls (snd (test_cosmos_db env w s)) = calls s)
   \<and> ((env ''storage_account_name'' = None \<or> env ''storage_container_name'' = None) \<longrightarrow>
      fst (test_storage_account env w s) = Inr False
      \<and> calls (snd (test_storage_account env w s)) = calls s)
   \<and> (env ''APPLICATIONINSIGHTS_CONNECTION_STRING'' = None \<longrightarrow>
      fst (test_application_insights env s) = Inr False
      \<and> calls (snd (test_application_insights env s)) = calls s)
   \<and> (env ''customer_loyalty'' = None \<longrightarrow>
      fst (test_agent_ids env s) = Inr False
      \<and> calls (snd (test_agent_ids env s)) = calls s)"
proof (intro conjI impI)
  assume a: "env ''AZURE_OPENAI_ENDPOINT'' = None \<or> env ''AZURE_OPENAI_KEY'' = None
       \<or> env ''AZURE_OPENAI_API_VERSION'' = None"
  then have "\<not> (truthy (env ''AZURE_OPENAI_ENDPOINT'') \<and> truthy (env ''AZURE_OPENAI_KEY'')
      \<and> truthy (env ''AZURE_OPENAI_API_VERSION''))"
    by auto
  note r = test_azure_openai_missing [of env, OF this]
  show "fst (test_azure_openai env w s) = Inr False" by (simp add: r)
  show "calls (snd (test_azure_openai env w s)) = calls s" by (simp add: r)
next
  assume a: "env ''SEARCH_ENDPOINT'' = None \<or> env ''SEARCH_KEY'' = None
       \<or> env ''INDEX_NAME'' = None"
  then have "\<not> (truthy (env ''SEARCH_ENDPOINT'') \<and> truthy (env ''SEARCH_KEY'')
      \<and> truthy (env ''INDEX_NAME''))"
    by auto
  note r = test_ai_search_missing [of env, OF this]
  show "fst (test_ai_search env w s) = Inr False" by (simp add: r)
  show "calls (snd (test_ai_search env w s)) = calls s" by (simp add: r)
next
  assume a: "env ''COSMOS_ENDPOINT'' = None \<or> env ''DATABASE_NAME'' = None"
  then have "\<not> (truthy (env ''COSMOS_ENDPOINT'') \<and> truthy (env ''DATABASE_NAME''))"
    by auto
  note r = test_cosmos_db_missing [of env, OF this]
  show "fst (test_cosmos_db env w s) = Inr False" by (simp add: r)
  show "calls (snd (test_cosmos_db env w s)) = calls s" by (simp add: r)
next
  assume a: "env ''storage_account_name'' = None \<or> env ''storage_container_name'' = None"
  then have "\<not> (truthy (env ''storage_account_name'')
      \<and> truthy (env ''storage_container_name''))"
    by auto
  note r = test_storage_account_missing [of env, OF this]
  show "fst (test_storage_account env w s) = Inr False" by (simp add: r)
  show "calls (snd (test_storage_account env w s)) = calls s" by (simp add: r)
next
  assume a: "env ''APPLICATIONINSIGHTS_CONNECTION_STRING'' = None"
  then have "\<not> truthy (env ''APPLICATIONINSIGHTS_CONNECTION_STRING'')"
    by simp
  note r = test_application_insights_missing [of env, OF this]
  show "fst (test_application_insights env s) = Inr False" by (simp add: r)
  show "calls (snd (test_application_insights env s)) = calls s" by (simp add: r)
next
  assume a: "env ''customer_loyalty'' = None"
  show "fst (test_agent_ids env s) = Inr False"
    by (simp add: test_agent_ids_result a)
  show "calls (snd (test_agent_ids env s)) = calls s"
    by (rule test_agent_ids_calls)
qed

theorem missing_config_no_network_witness:
  "fst (test_azure_openai Map.empty (world_status 200) init_state) = Inr False
   \<and> calls (snd (test_azure_openai Map.empty (world_status 200) init_state)) = []
   \<and> fst (test_ai_search Map.empty (world_status 200) init_state) = Inr False
   \<and> calls (snd (test_ai_search Map.empty (world_status 200) init_state)) = []
   \<and> fst (test_cosmos_db Map.empty (world_status 200) init_state) = Inr False
   \<and> calls (snd (test_cosmos_db Map.empty (world_status 200) init_state)) = []
   \<and> fst (test_storage_account Map.empty (world_status 200) init_state) = Inr False
   \<and> calls (snd (test_storage_account Map.empty (world_status 200) init_state)) = []
   \<and> fst (test_application_insights Map.empty init_state) = Inr False
   \<and> calls (snd (test_application_insights Map.empty init_state)) = []
   \<and> fst (test_agent_ids Map.empty init_state) = Inr False
   \<and> calls (snd (test_agent_ids Map.empty init_state)) = []"
  using missing_config_no_network [of Map.empty "world_status 200" init_state]
  by (simp add: init_state_def)

text \<open>
  Claim C5. The agent-identifier check returns false if and only if the Customer
  Loyalty identifier is absent or blank (empty or whitespace only); the other four
  identifiers have no influence on the result.
\<close>

theorem agent_ids_required_only:
  "(fst (test_agent_ids env s) = Inr False \<longleftrightarrow>
      (env ''customer_loyalty'' = None
       \<or> (\<exists>a. env ''customer_loyalty'' = Some a \<and> list_all py_isspace a)))
   \<and> (fst (test_agent_ids env s) = Inr True \<longleftrightarrow>
      (\<exists>a. env ''customer_loyalty'' = Some a \<and> \<not> list_all py_isspace a))
   \<and> (env' ''customer_loyalty'' = env ''customer_loyalty'' \<longrightarrow>
      fst (test_agent_ids env' s') = fst (test_agent_ids env s))"
  by (cases "env ''customer_loyalty''") (simp_all add: test_agent_ids_result)

theorem agent_ids_required_only_witness:
  "fst (test_agent_ids loyalty_only_env init_state) = Inr True
   \<and> fst (test_agent_ids full_env init_state) = Inr True
   \<and> fst (test_agent_ids blank_loyalty_env init_state) = Inr False"
  using agent_ids_required_only [of loyalty_only_env init_state full_env init_state]
    agent_ids_required_only [of blank_loyalty_env init_state blank_loyalty_env init_state]
  by (simp add: loyalty_only_env_def full_env_def blank_loyalty_env_def lit_def py_isspace_def)

lemma agent_loop_empty_like_absent:
  "agent_loop (map (\<lambda>(n, v). (n, if v = Some [] then None else v)) xs) b s = agent_loop xs b s"
proof (induction xs arbitrary: b s)
  case Nil
  show ?case by simp
next
  case (Cons x xs)
  obtain n v where x: "x = (n, v)" by (cases x)
  show ?case
  proof (cases v)
    case None
    then show ?thesis by (simp add: x Cons.IH)
  next
    case (Some a)
    then show ?thesis by (cases "a = []") (simp_all add: x Cons.IH)
  qed
qed

lemma empty_like_absent_lookup:
  "(if (env(k \<mapsto> [])) n = Some [] then None else (env(k \<mapsto> [])) n)
     = (if (env(k := None)) n = Some [] then None else (env(k := None)) n)"
  by (cases "n = k") simp_all

lemma test_agent_ids_empty_like_absent:
  "test_agent_ids (env(k \<mapsto> [])) s = test_agent_ids (env(k := None)) s"
proof -
  have "map (\<lambda>(n, v). (n, if v = Some [] then None else v)) (agents (env(k \<mapsto> [])))
      = map (\<lambda>(n, v). (n, if v = Some [] then None else v)) (agents (env(k := None)))"
    unfolding agents_def getenv_def list.map prod.case
    by (simp only: empty_like_absent_lookup)
  then have "agent_loop (agents (env(k \<mapsto> []))) True s = agent_loop (agents (env(k := None))) True s"
    using agent_loop_empty_like_absent [of "agents (env(k \<mapsto> []))" True s]
      agent_loop_empty_like_absent [of "agents (env(k := None))" True s]
    by (simp only:)
  then show ?thesis
    by (simp only: test_agent_ids_def)
qed

text \<open>
  Claim C10. In every configuration-guarded check an environment variable set to the
  empty string is treated exactly like an absent one: the check reports the missing
  configuration and returns false without any external call.
\<close>

theorem empty_value_like_absent:
  "(k \<in> {''AZURE_OPENAI_ENDPOINT'', ''AZURE_OPENAI_KEY'', ''AZURE_OPENAI_API_VERSION''} \<longrightarrow>
      test_azure_openai (env(k \<mapsto> [])) w s
        = (Inr False, print (MissingConfiguration ''Azure OpenAI'') s)
      \<and> test_azure_openai (env(k := None)) w s = test_azure_openai (env(k \<mapsto> [])) w s)
   \<and> (k \<in> {''SEARCH_ENDPOINT'', ''SEARCH_KEY'', ''INDEX_NAME''} \<longrightarrow>
      test_ai_search (env(k \<mapsto> [])) w s
        = (Inr False, print (MissingConfiguration ''AI Search'') s)
      \<and> test_ai_search (env(k := None)) w s = test_ai_search (env(k \<mapsto> [])) w s)
   \<and> (k \<in> {''COSMOS_ENDPOINT'', ''DATABASE_NAME''} \<longrightarrow>
      test_cosmos_db (env(k \<mapsto> [])) w s
        = (Inr False, print (MissingConfiguration ''Cosmos DB'') s)
      \<and> test_cosmos_db (env(k := None)) w s = test_cosmos_db (env(k \<mapsto> [])) w s)
   \<and> (k \<in> {''storage_account_name'', ''storage_container_name''} \<longrightarrow>
      test_storage_account (env(k \<mapsto> [])) w s
        = (Inr False, print (MissingConfiguration ''Storage Account'') s)
      \<and> test_storage_account (env(k := None)) w s = test_storage_account (env(k \<mapsto> [])) w s)
   \<and> (k = ''APPLICATIONINSIGHTS_CONNECTION_STRING'' \<longrightarrow>
      test_application_insights (env(k \<mapsto> [])) s
        = (Inr False, print (MissingConfiguration ''Application Insights'') s)
      \<and> test_application_insights (env(k := None)) s
        = test_application_insights (env(k \<mapsto> [])) s)
   \<and> test_agent_ids (env(k := None)) s = test_agent_ids (env(k \<mapsto> [])) s"
proof (intro conjI impI)
  assume k: "k \<in> {''AZURE_OPENAI_ENDPOINT'', ''AZURE_OPENAI_KEY'', ''AZURE_OPENAI_API_VERSION''}"
  have e: "test_azure_openai (env(k \<mapsto> [])) w s
        = (Inr False, print (MissingConfiguration ''Azure OpenAI'') s)"
    by (rule test_azure_openai_missing) (use k in auto)
  have a: "test_azure_openai (env(k := None)) w s
        = (Inr False, print (MissingConfiguration ''Azure OpenAI'') s)"
    by (rule test_azure_openai_missing) (use k in auto)
  show "test_azure_openai (env(k \<mapsto> [])) w s
        = (Inr False, print (MissingConfiguration ''Azure OpenAI'') s)" by (rule e)
  show "test_azure_openai (env(k := None)) w s = test_azure_openai (env(k \<mapsto> [])) w s"
    by (simp only: e a)
next
  assume k: "k \<in> {''SEARCH_ENDPOINT'', ''SEARCH_KEY'', ''INDEX_NAME''}"
  have e: "test_ai_search (env(k \<mapsto> [])) w s
        = (Inr False, print (MissingConfiguration ''AI Search'') s)"
    by (rule test_ai_search_missing) (use k in auto)
  have a: "test_ai_search (env(k := None)) w s
        = (Inr False, print (MissingConfiguration ''AI Search'') s)"
    by (rule test_ai_search_missing) (use k in auto)
  show "test_ai_search (env(k \<mapsto> [])) w s
        = (Inr False, print (MissingConfiguration ''AI Search'') s)" by (rule e)
  show "test_ai_search (env(k := None)) w s = test_ai_search (env(k \<mapsto> [])) w s"
    by (simp only: e a)
next
  assume k: "k \<in> {''COSMOS_ENDPOINT'', ''DATABASE_NAME''}"
  have e: "test_cosmos_db (env(k \<mapsto> [])) w s
        = (Inr False, print (MissingConfiguration ''Cosmos DB'') s)"
    by (rule test_cosmos_db_missing) (use k in auto)
  have a: "test_cosmos_db (env(k := None)) w s
        = (Inr False, print (MissingConfiguration ''Cosmos DB'') s)"
    by (rule test_cosmos_db_missing) (use k in auto)
  show "test_cosmos_db (env(k \<mapsto> [])) w s
        = (Inr False, print (MissingConfiguration ''Cosmos DB'') s)" by (rule e)
  show "test_cosmos_db (env(k := None)) w s = test_cosmos_db (env(k \<mapsto> [])) w s"
    by (simp only: e a)
next
  assume k: "k \<in> {''storage_account_name'', ''storage_container_name''}"
  have e: "test_storage_account (env(k \<mapsto> [])) w s
        = (Inr False, print (MissingConfiguration ''Storage Account'') s)"
    by (rule test_storage_account_missing) (use k in auto)
  have a: "test_storage_account (env(k := None)) w s
        = (Inr False, print (MissingConfiguration ''Storage Account'') s)"
    by (rule test_storage_account_missing) (use k in auto)
  show "test_storage_account (env(k \<mapsto> [])) w s
        = (Inr False, print (MissingConfiguration ''Storage Account'') s)" by (rule e)
  show "test_storage_account (env(k := None)) w s = test_storage_account (env(k \<mapsto> [])) w s"
    by (simp only: e a)
next
  assume k: "k = ''APPLICATIONINSIGHTS_CONNECTION_STRING''"
  have e: "test_application_insights (env(k \<mapsto> [])) s
        = (Inr False, print (MissingConfiguration ''Application Insights'') s)"
    by (rule test_application_insights_missing) (use k in auto)
  have a: "test_application_insights (env(k := None)) s
        = (Inr False, print (MissingConfiguration ''Application Insights'') s)"
    by (rule test_application_insights_missing) (use k in auto)
  show "test_application_insights (env(k \<mapsto> [])) s
        = (Inr False, print (MissingConfiguration ''Application Insights'') s)" by (rule e)
  show "test_application_insights (env(k := None)) s
        = test_application_insights (env(k \<mapsto> [])) s"
    by (simp only: e a)
next
  show "test_agent_ids (env(k := None)) s = test_agent_ids (env(k \<mapsto> [])) s"
    by (rule test_agent_ids_empty_like_absent [symmetric])
qed

theorem empty_value_like_absent_witness:
  "test_azure_openai (full_env(''AZURE_OPENAI_KEY'' \<mapsto> [])) (world_status 200) init_state
     = (Inr False, \<lparr>out = [MissingConfiguration ''Azure OpenAI''], calls = []\<rparr>)
   \<and> test_azure_openai (full_env(''AZURE_OPENAI_KEY'' := None)) (world_status 200) init_state
     = (Inr False, \<lparr>out = [MissingConfiguration ''Azure OpenAI''], calls = []\<rparr>)"
  using empty_value_like_absent [of "''AZURE_OPENAI_KEY''" full_env "world_status 200" init_state]
  by (simp add: init_state_def print_def)

lemma py_split_not_Nil: "py_split sep s \<noteq> []"
  by (induction s) (auto split: list.splits)

lemma py_split_no_sep: "sep \<notin> set s \<Longrightarrow> py_split sep s = [s]"
  by (induction s) auto

lemma py_split_append:
  "sep \<notin> set a \<Longrightarrow> py_split sep (a @ sep # r) = a # py_split sep r"
  by (induction a) auto

lemma py_split_semicolon_delimited:
  "\<forall>item \<in> set items. 59 \<notin> set item \<Longrightarrow> items \<noteq> [] \<Longrightarrow>
   py_split 59 (semicolon_delimited items) = items"
proof (induction items rule: semicolon_delimited.induct)
  case 1
  then show ?case by simp
next
  case (2 item)
  then show ?case by (simp add: py_split_no_sep)
next
  case (3 item v va)
  then show ?case by (simp add: py_split_append)
qed

lemma py_dict_from_dom:
  "\<forall>kv \<in> set kvs. length kv = 2 \<Longrightarrow>
   \<exists>m'. py_dict_from m kvs = Inr m' \<and> dom m' = dom m \<union> hd ` set kvs"
proof (induction kvs arbitrary: m)
  case Nil
  show ?case by simp
next
  case (Cons kv kvs)
  from Cons.prems obtain k v where kv: "kv = [k, v]"
    by (cases kv; cases "tl kv"; cases "tl (tl kv)") auto
  from Cons.prems have "\<forall>kv \<in> set kvs. length kv = 2" by simp
  from Cons.IH [OF this, of "m(k \<mapsto> v)"]
  obtain m' where "py_dict_from (m(k \<mapsto> v)) kvs = Inr m'"
    and "dom m' = dom (m(k \<mapsto> v)) \<union> hd ` set kvs" by blast
  then show ?case by (auto simp: kv)
qed

lemma conn_string_parts_dom:
  "\<exists>parts. conn_string_parts cs = Inr parts
     \<and> dom parts = (\<lambda>item. takeWhile (\<lambda>c. c \<noteq> 61) item) ` {item \<in> set (py_split 59 cs). 61 \<in> set item}"
proof -
  let ?kvs = "map (py_split1 61) (filter (\<lambda>item. 61 \<in> set item) (py_split 59 cs))"
  have len: "\<forall>kv \<in> set ?kvs. length kv = 2"
    by (auto simp: py_split1_def)
  from py_dict_from_dom [OF len, of Map.empty]
  obtain m' where m': "py_dict_from Map.empty ?kvs = Inr m'" "dom m' = hd ` set ?kvs"
    by auto
  have "hd ` set ?kvs = (\<lambda>item. takeWhile (\<lambda>c. c \<noteq> 61) item) ` {item \<in> set (py_split 59 cs). 61 \<in> set item}"
    by (auto simp: py_split1_def image_iff)
  with m' show ?thesis
    by (simp add: conn_string_parts_def py_dict_def)
qed

lemma key_of_item:
  assumes "(61::nat) \<notin> set k"
  shows "(61 \<in> set item \<and> takeWhile (\<lambda>c. c \<noteq> 61) item = k)
     = (take (Suc (length k)) item = k @ [61])"
proof
  assume a: "61 \<in> set item \<and> takeWhile (\<lambda>c. c \<noteq> 61) item = k"
  then have "dropWhile (\<lambda>c. c \<noteq> 61) item \<noteq> []"
    by simp
  then obtain r where r: "dropWhile (\<lambda>c. c \<noteq> 61) item = 61 # r"
    by (metis (mono_tags, lifting) hd_dropWhile list.exhaust_sel)
  have "item = takeWhile (\<lambda>c. c \<noteq> 61) item @ dropWhile (\<lambda>c. c \<noteq> 61) item"
    by simp
  then have "item = k @ 61 # r" using a r by simp
  then show "take (Suc (length k)) item = k @ [61]" by simp
next
  assume t: "take (Suc (length k)) item = k @ [61]"
  have "item = take (Suc (length k)) item @ drop (Suc (length k)) item" by simp
  then have i: "item = k @ 61 # drop (Suc (length k)) item" using t by simp
  have "\<And>x. x \<in> set k \<Longrightarrow> x \<noteq> 61"
    using assms by auto
  then have "takeWhile (\<lambda>c. c \<noteq> 61) (k @ 61 # drop (Suc (length k)) item)
      = k @ takeWhile (\<lambda>c. c \<noteq> 61) (61 # drop (Suc (length k)) item)"
    by (rule takeWhile_append2)
  then have "takeWhile (\<lambda>c. c \<noteq> 61) (k @ 61 # drop (Suc (length k)) item) = k"
    by simp
  moreover have "61 \<in> set (k @ 61 # drop (Suc (length k)) item)" by simp
  ultimately show "61 \<in> set item \<and> takeWhile (\<lambda>c. c \<noteq> 61) item = k"
    using i by metis
qed

lemma key_in_parts:
  assumes "61 \<notin> set k" "conn_string_parts cs = Inr parts"
  shows "(k \<in> dom parts) = has_key k (py_split 59 cs)"
proof -
  from conn_string_parts_dom [of cs] assms(2)
  have d: "dom parts = (\<lambda>item. takeWhile (\<lambda>c. c \<noteq> 61) item) ` {item \<in> set (py_split 59 cs). 61 \<in> set item}"
    by auto
  have "(k \<in> dom parts) = (\<exists>item \<in> set (py_split 59 cs). 61 \<in> set item \<and> takeWhile (\<lambda>c. c \<noteq> 61) item = k)"
    unfolding d by auto
  also have "\<dots> = (\<exists>item \<in> set (py_split 59 cs). take (Suc (length k)) item = k @ [61])"
    using key_of_item [OF assms(1)] by simp
  finally show ?thesis
    by (simp add: has_key_def list_ex_iff)
qed

lemma try_except_Exception_Inr:
  "body s = (Inr x, s') \<Longrightarrow> try_except_Exception body handler s = (Inr x, s')"
  by (simp add: try_except_Exception_def)

lemma has_key_empty_item: "has_key k [[]] = False"
  by (simp add: has_key_def)

lemma equals_not_in_keys:
  "61 \<notin> set (lit ''InstrumentationKey'')" "61 \<notin> set (lit ''IngestionEndpoint'')"
  by (simp_all add: lit_def)

lemma test_application_insights_result:
  assumes "env ''APPLICATIONINSIGHTS_CONNECTION_STRING'' = Some cs"
  shows "fst (test_application_insights env s) =
     Inr (has_key (lit ''InstrumentationKey'') (py_split 59 cs)
          \<and> has_key (lit ''IngestionEndpoint'') (py_split 59 cs))"
proof (cases "cs = []")
  case True
  then show ?thesis
    using assms test_application_insights_missing [of env s]
    by (simp add: has_key_empty_item)
next
  case False
  obtain parts where parts: "conn_string_parts cs = Inr parts"
    using conn_string_parts_dom [of cs] by blast
  have k1: "(lit ''InstrumentationKey'' \<in> dom parts)
      = has_key (lit ''InstrumentationKey'') (py_split 59 cs)"
    by (rule key_in_parts [OF equals_not_in_keys(1) parts])
  have k2: "(lit ''IngestionEndpoint'' \<in> dom parts)
      = has_key (lit ''IngestionEndpoint'') (py_split 59 cs)"
    by (rule key_in_parts [OF equals_not_in_keys(2) parts])
  show ?thesis
    using False assms
    by (simp add: test_application_insights_def getenv_def try_except_Exception_def parts
          k1 k2 del: dom_eq_empty_conv)
qed

lemma test_application_insights_calls:
  "calls (snd (test_application_insights env s)) = calls s"
proof (cases "env ''APPLICATIONINSIGHTS_CONNECTION_STRING''")
  case None
  then show ?thesis
    using test_application_insights_missing [of env s] by simp
next
  case (Some cs)
  obtain parts where parts: "conn_string_parts cs = Inr parts"
    using conn_string_parts_dom [of cs] by blast
  show ?thesis
    using Some
    by (simp add: test_application_insights_def getenv_def try_except_Exception_def parts)
qed

text \<open>
  Claim C4. The telemetry check returns true for every semicolon-delimited
  connection string that has an item \<open>InstrumentationKey=...\<close> and an item
  \<open>IngestionEndpoint=...\<close>, returns false when either is missing, and never makes
  an external call.
\<close>

theorem application_insights_keys:
  "calls (snd (test_application_insights env s)) = calls s
   \<and> (env ''APPLICATIONINSIGHTS_CONNECTION_STRING'' = Some (semicolon_delimited items)
        \<and> (\<forall>item \<in> set items. 59 \<notin> set item) \<longrightarrow>
      fst (test_application_insights env s) =
        Inr (has_key (lit ''InstrumentationKey'') items
             \<and> has_key (lit ''IngestionEndpoint'') items))"
proof (intro conjI impI)
  show "calls (snd (test_application_insights env s)) = calls s"
    by (rule test_application_insights_calls)
next
  assume a: "env ''APPLICATIONINSIGHTS_CONNECTION_STRING'' = Some (semicolon_delimited items)
        \<and> (\<forall>item \<in> set items. 59 \<notin> set item)"
  note r = test_application_insights_result [of env "semicolon_delimited items" s]
  show "fst (test_application_insights env s) =
        Inr (has_key (lit ''InstrumentationKey'') items
             \<and> has_key (lit ''IngestionEndpoint'') items)"
  proof (cases "items = []")
    case True
    then show ?thesis using a r by (simp add: has_key_def)
  next
    case False
    then have "py_split 59 (semicolon_delimited items) = items"
      using a by (simp add: py_split_semicolon_delimited)
    then show ?thesis using a r by simp
  qed
qed

theorem application_insights_keys_witness:
  "fst (test_application_insights
          (app_insights_env (semicolon_delimited
             [lit ''InstrumentationKey=X'', lit ''IngestionEndpoint=Y'']))
          init_state) = Inr True
   \<and> fst (test_application_insights
          (app_insights_env (semicolon_delimited [lit ''InstrumentationKey=X'']))
          init_state) = Inr False
   \<and> fst (test_application_insights
          (app_insights_env (semicolon_delimited
             [lit ''Other=1'', lit ''IngestionEndpoint=Y'']))
          init_state) = Inr False"
  using application_insights_keys
      [of "app_insights_env (semicolon_delimited
             [lit ''InstrumentationKey=X'', lit ''IngestionEndpoint=Y''])" init_state
          "[lit ''InstrumentationKey=X'', lit ''IngestionEndpoint=Y'']"]
    application_insights_keys
      [of "app_insights_env (semicolon_delimited [lit ''InstrumentationKey=X''])" init_state
          "[lit ''InstrumentationKey=X'']"]
    application_insights_keys
      [of "app_insights_env (semicolon_delimited
             [lit ''Other=1'', lit ''IngestionEndpoint=Y''])" init_state
          "[lit ''Other=1'', lit ''IngestionEndpoint=Y'']"]
  by (simp add: app_insights_env_def has_key_def lit_def)

section \<open>Properties of the fallback caller\<close>

lemma sent_time_time [simp]: "sent (snd (time_time clock s)) = sent s"
  by (simp add: time_time_def)

lemma sent_logger_info [simp]: "sent (logger_info l s) = sent s"
  by (simp add: logger_info_def)

lemma sent_log_timing [simp]: "sent (log_timing clock name t d s) = sent s"
  by (simp add: log_timing_def time_time_def logger_info_def)

lemma call_fallback_sent:
  "sent (snd (call_fallback clock llm_client prompt dep s))
     = sent s @ [call_fallback_request prompt dep]"
  by (simp add: call_fallback_def completions_create_def time_time_def
        split: prod.splits sum.splits)

lemma call_fallback_reply:
  "llm_client (sent s) (call_fallback_request prompt dep) = Inr c \<Longrightarrow> choices c = ch # rest \<Longrightarrow>
   fst (call_fallback clock llm_client prompt dep s) = Inr (message_content ch)"
  by (simp add: call_fallback_def completions_create_def time_time_def first_choice_content_def)

lemma call_fallback_raises:
  "llm_client (sent s) (call_fallback_request prompt dep) = Inl e \<Longrightarrow>
   fst (call_fallback clock llm_client prompt dep s) = Inl e"
  by (simp add: call_fallback_def completions_create_def time_time_def)

lemma cora_fallback_undecorated_sent:
  "sent (snd (cora_fallback_undecorated clock llm_client prompt dep s))
     = sent s @ [cora_fallback_request prompt dep]"
  by (simp add: cora_fallback_undecorated_def completions_create_def time_time_def Let_def
        split: prod.splits sum.splits)

lemma cora_fallback_undecorated_reply:
  "llm_client (sent s) (cora_fallback_request prompt dep) = Inr c \<Longrightarrow> choices c = ch # rest \<Longrightarrow>
   fst (cora_fallback_undecorated clock llm_client prompt dep s) = Inr (message_content ch)"
  by (simp add: cora_fallback_undecorated_def completions_create_def time_time_def
        first_choice_content_def Let_def)

lemma cora_fallback_undecorated_raises:
  "llm_client (sent s) (cora_fallback_request prompt dep) = Inl e \<Longrightarrow>
   fst (cora_fallback_undecorated clock llm_client prompt dep s) = Inl e"
  by (simp add: cora_fallback_undecorated_def completions_create_def time_time_def)

text \<open>
  What \<open>call_fallback\<close> does, for every client, prompt and deployment name: one
  request of the stated shape, the text of the first choice as the result, and the
  client's exception as the result when the client raises.
\<close>

lemma call_fallback_request_and_reply:
  "sent (snd (call_fallback clock llm_client prompt dep s)) = sent s @
      [\<lparr>model = dep,
        messages = [\<lparr>role = lit ''system'',
                     content = [\<lparr>block_type = lit ''text'', block_text = prompt\<rparr>]\<rparr>],
        temperature = 7 / 10, top_p = None, frequency_penalty = None,
        presence_penalty = None, stop = None, stream = False\<rparr>]
   \<and> (llm_client (sent s) (call_fallback_request prompt dep) = Inr c
        \<and> choices c = ch # rest \<longrightarrow>
      fst (call_fallback clock llm_client prompt dep s) = Inr (message_content ch))
   \<and> (llm_client (sent s) (call_fallback_request prompt dep) = Inl e \<longrightarrow>
      fst (call_fallback clock llm_client prompt dep s) = Inl e)"
  by (simp add: call_fallback_sent call_fallback_reply call_fallback_raises
        call_fallback_request_def chat_prompt_def)

text \<open>
  The name \<open>cora_fallback\<close> never reaches the function it decorates: every call
  with two or three arguments ends with a \<open>TypeError\<close>, and nothing is sent or
  logged.
\<close>

lemma cora_fallback_type_error:
  "\<exists>m. cora_fallback clock llm_client prompt dep s = (Inl (Exn TypeError m), s)"
  by (cases dep) (simp_all add: cora_fallback_def trace_function_decorator_def)

text \<open>
  Claim C6 does not hold of \<open>cora_fallback\<close>. With a client that answers
  \<open>hello\<close>, the function of lines 40 to 85 sends the request that the claim
  describes and returns \<open>hello\<close>, and \<open>call_fallback\<close> does so as well; the
  name \<open>cora_fallback\<close>, with or without a deployment name, raises \<open>TypeError\<close>
  and sends no request.
\<close>

theorem cora_fallback_sends_no_request:
  "cora_fallback wall_clock (client_reply (lit ''hello'')) (lit ''help'') None init_fstate
     = (Inl (Exn TypeError
          (lit ''trace_function.<locals>.decorator() takes 1 positional argument but 2 were given'')),
        init_fstate)
   \<and> cora_fallback wall_clock (client_reply (lit ''hello'')) (lit ''help'')
        (Some cora_fallback_default_deployment) init_fstate
     = (Inl (Exn TypeError
          (lit ''trace_function.<locals>.decorator() takes 1 positional argument but 3 were given'')),
        init_fstate)
   \<and> sent init_fstate = []
   \<and> fst (cora_fallback_undecorated wall_clock (client_reply (lit ''hello'')) (lit ''help'')
          cora_fallback_default_deployment init_fstate) = Inr (Some (lit ''hello''))
   \<and> sent (snd (cora_fallback_undecorated wall_clock (client_reply (lit ''hello''))
          (lit ''help'') cora_fallback_default_deployment init_fstate))
        = [cora_fallback_request (lit ''help'') cora_fallback_default_deployment]
   \<and> fst (call_fallback wall_clock (client_reply (lit ''hello'')) (lit ''help'')
          call_fallback_default_deployment init_fstate) = Inr (Some (lit ''hello''))"
proof -
  have r: "fst (cora_fallback_undecorated wall_clock (client_reply (lit ''hello'')) (lit ''help'')
          cora_fallback_default_deployment init_fstate) = Inr (Some (lit ''hello''))"
    using cora_fallback_undecorated_reply [of "client_reply (lit ''hello'')" init_fstate
        "lit ''help''" cora_fallback_default_deployment
        "\<lparr>choices = [\<lparr>message_content = Some (lit ''hello'')\<rparr>], usage = None\<rparr>"
        "\<lparr>message_content = Some (lit ''hello'')\<rparr>" "[]" wall_clock]
    by (simp add: client_reply_def)
  have c: "fst (call_fallback wall_clock (client_reply (lit ''hello'')) (lit ''help'')
          call_fallback_default_deployment init_fstate) = Inr (Some (lit ''hello''))"
    using call_fallback_reply [of "client_reply (lit ''hello'')" init_fstate
        "lit ''help''" call_fallback_default_deployment
        "\<lparr>choices = [\<lparr>message_content = Some (lit ''hello'')\<rparr>], usage = None\<rparr>"
        "\<lparr>message_content = Some (lit ''hello'')\<rparr>" "[]" wall_clock]
    by (simp add: client_reply_def)
  have s: "sent (snd (cora_fallback_undecorated wall_clock (client_reply (lit ''hello''))
          (lit ''help'') cora_fallback_default_deployment init_fstate))
        = [cora_fallback_request (lit ''help'') cora_fallback_default_deployment]"
    by (simp add: cora_fallback_undecorated_sent init_fstate_def)
  have t2: "cora_fallback wall_clock (client_reply (lit ''hello'')) (lit ''help'') None init_fstate
     = (Inl (Exn TypeError
          (lit ''trace_function.<locals>.decorator() takes 1 positional argument but 2 were given'')),
        init_fstate)"
    by (simp add: cora_fallback_def trace_function_decorator_def lit_def)
  have t3: "cora_fallback wall_clock (client_reply (lit ''hello'')) (lit ''help'')
        (Some cora_fallback_default_deployment) init_fstate
     = (Inl (Exn TypeError
          (lit ''trace_function.<locals>.decorator() takes 1 positional argument but 3 were given'')),
        init_fstate)"
    by (simp add: cora_fallback_def trace_function_decorator_def lit_def)
  have e: "sent init_fstate = []" by (simp add: init_fstate_def)
  from t2 t3 e r s c show ?thesis by (intro conjI)
qed

text \<open>
  Claim C7 does not hold of \<open>cora_fallback\<close>. With a client whose completion call
  raises an authentication error, \<open>call_fallback\<close> and the function of lines 40
  to 85 end with that error after one request; the name \<open>cora_fallback\<close> ends
  with the decorator's \<open>TypeError\<close> instead, and the client is never called.
\<close>

theorem cora_fallback_raises_type_error_instead:
  "fst (cora_fallback wall_clock (client_raising (Exn OtherException (lit ''401'')))
          (lit ''help'') None init_fstate)
     = Inl (Exn TypeError
          (lit ''trace_function.<locals>.decorator() takes 1 positional argument but 2 were given''))
   \<and> sent (snd (cora_fallback wall_clock (client_raising (Exn OtherException (lit ''401'')))
          (lit ''help'') None init_fstate)) = []
   \<and> fst (cora_fallback_undecorated wall_clock
          (client_raising (Exn OtherException (lit ''401'')))
          (lit ''help'') cora_fallback_default_deployment init_fstate)
        = Inl (Exn OtherException (lit ''401''))
   \<and> fst (call_fallback wall_clock (client_raising (Exn OtherException (lit ''401'')))
          (lit ''help'') call_fallback_default_deployment init_fstate)
        = Inl (Exn OtherException (lit ''401''))
   \<and> length (sent (snd (call_fallback wall_clock
          (client_raising (Exn OtherException (lit ''401'')))
          (lit ''help'') call_fallback_default_deployment init_fstate))) = 1"
proof -
  have t: "cora_fallback wall_clock (client_raising (Exn OtherException (lit ''401'')))
          (lit ''help'') None init_fstate
     = (Inl (Exn TypeError
          (lit ''trace_function.<locals>.decorator() takes 1 positional argument but 2 were given'')),
        init_fstate)"
    by (simp add: cora_fallback_def trace_function_decorator_def lit_def)
  have u: "fst (cora_fallback_undecorated wall_clock
          (client_raising (Exn OtherException (lit ''401'')))
          (lit ''help'') cora_fallback_default_deployment init_fstate)
        = Inl (Exn OtherException (lit ''401''))"
    by (rule cora_fallback_undecorated_raises) (simp add: client_raising_def)
  have c: "fst (call_fallback wall_clock (client_raising (Exn OtherException (lit ''401'')))
          (lit ''help'') call_fallback_default_deployment init_fstate)
        = Inl (Exn OtherException (lit ''401''))"
    by (rule call_fallback_raises) (simp add: client_raising_def)
  have n: "length (sent (snd (call_fallback wall_clock
          (client_raising (Exn OtherException (lit ''401'')))
          (lit ''help'') call_fallback_default_deployment init_fstate))) = 1"
    by (simp add: call_fallback_sent init_fstate_def)
  show ?thesis
    unfolding t using u c n by (simp add: init_fstate_def)
qed

section \<open>Exceptions and the main entry point\<close>

lemma bind_Inr: "m s = (Inr x, s') \<Longrightarrow> bind m f s = f x s'"
  by (simp add: bind_def)

lemma bind_Inl: "m s = (Inl e, s') \<Longrightarrow> bind m f s = (Inl e, s')"
  by (simp add: bind_def)

lemma bind_InrE:
  assumes "bind m f s = (Inr y, s')"
  obtains x s1 where "m s = (Inr x, s1)" "f x s1 = (Inr y, s')"
proof (cases "m s")
  case (Pair r s1)
  with assms show ?thesis
    by (cases r) (auto simp: bind_def intro: that)
qed

lemma test_cosmos_db_configured:
  assumes "env ''COSMOS_ENDPOINT'' = Some ep" "ep \<noteq> []"
    "env ''DATABASE_NAME'' = Some d" "d \<noteq> []"
  shows "test_cosmos_db env w s =
     try_except_Exception
       (bind (sdk_call w DefaultAzureCredential) (\<lambda>_.
        bind (sdk_call w (CosmosClient ep)) (\<lambda>_.
        bind (sdk_call w (GetDatabaseClient d)) (\<lambda>_.
        bind (sdk_call w DatabaseRead) (\<lambda>_.
        (\<lambda>s'. (Inr True, print (CosmosAccessible d) s')))))))
       (\<lambda>ex s'. (Inr False, print (CosmosFailed (take 100 (str_of_exn ex))) s'))
       s"
  using assms by (simp add: test_cosmos_db_def getenv_def py_all2)

lemma test_storage_account_configured:
  assumes "env ''storage_account_name'' = Some a" "a \<noteq> []"
    "env ''storage_container_name'' = Some c" "c \<noteq> []"
  shows "test_storage_account env w s =
     try_except_Exception
       (bind (sdk_call w DefaultAzureCredential) (\<lambda>_.
        bind (sdk_call w (BlobServiceClient
                (lit ''https://'' @ a @ lit ''.blob.core.windows.net''))) (\<lambda>_.
        bind (sdk_call w (GetContainerClient c)) (\<lambda>_.
        bind (sdk_call w GetContainerProperties) (\<lambda>_.
        (\<lambda>s'. (Inr True, print (StorageAccessible c) s')))))))
       (\<lambda>ex s'. (Inr False, print (StorageFailed (take 100 (str_of_exn ex))) s'))
       s"
  using assms by (simp add: test_storage_account_def getenv_def py_all2 Let_def)

lemma run_checks_results:
  assumes "test_azure_openai env w s0 = (Inr b1, s1)"
    and "test_ai_search env w s1 = (Inr b2, s2)"
    and "test_cosmos_db env w s2 = (Inr b3, s3)"
    and "test_storage_account env w s3 = (Inr b4, s4)"
    and "test_application_insights env s4 = (Inr b5, s5)"
    and "test_agent_ids env s5 = (Inr b6, s6)"
  shows "run_checks env w s0 =
     (Inr [(''Azure OpenAI'', b1), (''AI Search'', b2), (''Cosmos DB'', b3),
           (''Storage Account'', b4), (''Application Insights'', b5), (''Agent IDs'', b6)],
      s6)"
  by (simp add: run_checks_def bind_def return_def assms)

lemma run_checks_names:
  assumes "run_checks env w s0 = (Inr results, s')"
  shows "\<exists>b1 b2 b3 b4 b5 b6. results =
     [(''Azure OpenAI'', b1), (''AI Search'', b2), (''Cosmos DB'', b3),
      (''Storage Account'', b4), (''Application Insights'', b5), (''Agent IDs'', b6)]"
proof -
  from assms [unfolded run_checks_def]
  obtain b1 s1 where r1: "bind (test_ai_search env w) (\<lambda>r2.
     bind (test_cosmos_db env w) (\<lambda>r3.
     bind (test_storage_account env w) (\<lambda>r4.
     bind (test_application_insights env) (\<lambda>r5.
     bind (test_agent_ids env) (\<lambda>r6.
     return [(''Azure OpenAI'', b1), (''AI Search'', r2), (''Cosmos DB'', r3),
             (''Storage Account'', r4), (''Application Insights'', r5),
             (''Agent IDs'', r6)]))))) s1 = (Inr results, s')"
    by (rule bind_InrE)
  from r1 obtain b2 s2 where r2: "bind (test_cosmos_db env w) (\<lambda>r3.
     bind (test_storage_account env w) (\<lambda>r4.
     bind (test_application_insights env) (\<lambda>r5.
     bind (test_agent_ids env) (\<lambda>r6.
     return [(''Azure OpenAI'', b1), (''AI Search'', b2), (''Cosmos DB'', r3),
             (''Storage Account'', r4), (''Application Insights'', r5),
             (''Agent IDs'', r6)])))) s2 = (Inr results, s')"
    by (rule bind_InrE)
  from r2 obtain b3 s3 where r3: "bind (test_storage_account env w) (\<lambda>r4.
     bind (test_application_insights env) (\<lambda>r5.
     bind (test_agent_ids env) (\<lambda>r6.
     return [(''Azure OpenAI'', b1), (''AI Search'', b2), (''Cosmos DB'', b3),
             (''Storage Account'', r4), (''Application Insights'', r5),
             (''Agent IDs'', r6)]))) s3 = (Inr results, s')"
    by (rule bind_InrE)
  from r3 obtain b4 s4 where r4: "bind (test_application_insights env) (\<lambda>r5.
     bind (test_agent_ids env) (\<lambda>r6.
     return [(''Azure OpenAI'', b1), (''AI Search'', b2), (''Cosmos DB'', b3),
             (''Storage Account'', b4), (''Application Insights'', r5),
             (''Agent IDs'', r6)])) s4 = (Inr results, s')"
    by (rule bind_InrE)
  from r4 obtain b5 s5 where r5: "bind (test_agent_ids env) (\<lambda>r6.
     return [(''Azure OpenAI'', b1), (''AI Search'', b2), (''Cosmos DB'', b3),
             (''Storage Account'', b4), (''Application Insights'', b5),
             (''Agent IDs'', r6)]) s5 = (Inr results, s')"
    by (rule bind_InrE)
  from r5 obtain b6 s6 where r6: "return [(''Azure OpenAI'', b1), (''AI Search'', b2),
             (''Cosmos DB'', b3), (''Storage Account'', b4), (''Application Insights'', b5),
             (''Agent IDs'', b6)] s6 = (Inr results, s')"
    by (rule bind_InrE)
  then show ?thesis
    by (auto simp: return_def)
qed

lemma summarize_code:
  "fst (summarize results s) = Inr (if list_all (\<lambda>v. v) (map snd results) then 0 else 1)"
  by (simp add: summarize_def Let_def)

lemma summarize_out:
  "out (snd (summarize results s)) = out s @
     [Blank, Rule, Summary, Rule,
      Passed (int (length (filter (\<lambda>v. v) (map snd results)))) (int (length results)),
      Failed (int (length results) - int (length (filter (\<lambda>v. v) (map snd results))))
        (int (length results)),
      if list_all (\<lambda>v. v) (map snd results) then AllConfigured else NeedAttention]"
  by (simp add: summarize_def Let_def)

lemma main_from_results:
  "run_checks env w (print Blank (print Rule (print Title (print Rule s)))) = (Inr results, s') \<Longrightarrow>
   main env w s = summarize results s'"
  by (simp add: main_def bind_def)

lemma main_InrE:
  assumes "main env w s = (Inr code, s')"
  obtains results s1 where
    "run_checks env w (print Blank (print Rule (print Title (print Rule s)))) = (Inr results, s1)"
    "summarize results s1 = (Inr code, s')"
  using assms unfolding main_def by (rule bind_InrE)

lemma result_pair: "fst r = Inr b \<Longrightarrow> r = (Inr b, snd r)"
  by (simp add: prod_eq_iff)

lemma lit_not_empty: "s \<noteq> [] \<Longrightarrow> lit s \<noteq> []"
  by (simp add: lit_def)

lemma full_env_azure_openai:
  "fst (test_azure_openai full_env (world_status 200) s) = Inr True"
proof -
  have "test_azure_openai full_env (world_status 200) s =
     test_endpoint (world_status 200) ''Azure OpenAI''
       (py_rstrip (lit ''/'') (lit ''https://oai.example/'')
          @ lit ''/openai/deployments?api-version='' @ lit ''2024-02-01'')
       [(lit ''api-key'', lit ''k1'')] s"
    by (rule test_azure_openai_configured) (simp_all add: full_env_def lit_not_empty)
  then show ?thesis
    by (simp add: test_endpoint_response world_status_def)
qed

lemma full_env_ai_search:
  "fst (test_ai_search full_env (world_status 200) s) = Inr True"
proof -
  have "test_ai_search full_env (world_status 200) s =
     test_endpoint (world_status 200) ''AI Search''
       (py_rstrip (lit ''/'') (lit ''https://search.example'')
          @ lit ''/indexes/'' @ lit ''idx'' @ lit ''?api-version=2023-11-01'')
       [(lit ''api-key'', lit ''k2'')] s"
    by (rule test_ai_search_configured) (simp_all add: full_env_def lit_not_empty)
  then show ?thesis
    by (simp add: test_endpoint_response world_status_def)
qed

lemma full_env_cosmos_db:
  "fst (test_cosmos_db full_env (world_status 200) s) = Inr True"
proof -
  have "test_cosmos_db full_env (world_status 200) s =
     try_except_Exception
       (bind (sdk_call (world_status 200) DefaultAzureCredential) (\<lambda>_.
        bind (sdk_call (world_status 200) (CosmosClient (lit ''https://cosmos.example''))) (\<lambda>_.
        bind (sdk_call (world_status 200) (GetDatabaseClient (lit ''db''))) (\<lambda>_.
        bind (sdk_call (world_status 200) DatabaseRead) (\<lambda>_.
        (\<lambda>s'. (Inr True, print (CosmosAccessible (lit ''db'')) s')))))))
       (\<lambda>ex s'. (Inr False, print (CosmosFailed (take 100 (str_of_exn ex))) s'))
       s"
    by (rule test_cosmos_db_configured) (simp_all add: full_env_def lit_not_empty)
  then show ?thesis
    by (simp add: try_except_Exception_def bind_def sdk_call_def world_status_def)
qed

lemma full_env_storage_account:
  "fst (test_storage_account full_env (world_status 200) s) = Inr True"
proof -
  have "test_storage_account full_env (world_status 200) s =
     try_except_Exception
       (bind (sdk_call (world_status 200) DefaultAzureCredential) (\<lambda>_.
        bind (sdk_call (world_status 200) (BlobServiceClient
                (lit ''https://'' @ lit ''acct'' @ lit ''.blob.core.windows.net''))) (\<lambda>_.
        bind (sdk_call (world_status 200) (GetContainerClient (lit ''images''))) (\<lambda>_.
        bind (sdk_call (world_status 200) GetContainerProperties) (\<lambda>_.
        (\<lambda>s'. (Inr True, print (StorageAccessible (lit ''images'')) s')))))))
       (\<lambda>ex s'. (Inr False, print (StorageFailed (take 100 (str_of_exn ex))) s'))
       s"
    by (rule test_storage_account_configured) (simp_all add: full_env_def lit_not_empty)
  then show ?thesis
    by (simp add: try_except_Exception_def bind_def sdk_call_def world_status_def)
qed

lemma full_env_application_insights:
  "fst (test_application_insights full_env s) = Inr True"
proof -
  have "full_env ''APPLICATIONINSIGHTS_CONNECTION_STRING''
      = Some (lit ''InstrumentationKey=X;IngestionEndpoint=Y'')"
    by (simp add: full_env_def)
  from test_application_insights_result [of full_env _ s, OF this] show ?thesis
    by (simp add: has_key_def lit_def)
qed

lemma full_env_agent_ids: "fst (test_agent_ids full_env s) = Inr True"
  by (simp add: test_agent_ids_result full_env_def lit_def py_isspace_def)

lemma full_env_run_checks:
  "fst (run_checks full_env (world_status 200) s) =
     Inr [(''Azure OpenAI'', True), (''AI Search'', True), (''Cosmos DB'', True),
          (''Storage Account'', True), (''Application Insights'', True), (''Agent IDs'', True)]"
  using run_checks_results [OF result_pair [OF full_env_azure_openai]
      result_pair [OF full_env_ai_search] result_pair [OF full_env_cosmos_db]
      result_pair [OF full_env_storage_account] result_pair [OF full_env_application_insights]
      result_pair [OF full_env_agent_ids], of s]
  by simp

text \<open>
  Claim C1. The main entry point returns exit code 0 if and only if all six checks
  return true, and 1 otherwise, whatever the six results are.
\<close>

theorem main_exit_code:
  assumes "test_azure_openai env w (print Blank (print Rule (print Title (print Rule s))))
      = (Inr b1, s1)"
    and "test_ai_search env w s1 = (Inr b2, s2)"
    and "test_cosmos_db env w s2 = (Inr b3, s3)"
    and "test_storage_account env w s3 = (Inr b4, s4)"
    and "test_application_insights env s4 = (Inr b5, s5)"
    and "test_agent_ids env s5 = (Inr b6, s6)"
  shows "fst (main env w s) = Inr (if b1 \<and> b2 \<and> b3 \<and> b4 \<and> b5 \<and> b6 then 0 else 1)
    \<and> (fst (main env w s) = Inr 0 \<longleftrightarrow> b1 \<and> b2 \<and> b3 \<and> b4 \<and> b5 \<and> b6)"
proof -
  have "main env w s = summarize
     [(''Azure OpenAI'', b1), (''AI Search'', b2), (''Cosmos DB'', b3),
      (''Storage Account'', b4), (''Application Insights'', b5), (''Agent IDs'', b6)] s6"
    by (rule main_from_results) (rule run_checks_results [OF assms])
  then have "fst (main env w s) = Inr (if b1 \<and> b2 \<and> b3 \<and> b4 \<and> b5 \<and> b6 then 0 else 1)"
    by (simp add: summarize_code)
  then show ?thesis by simp
qed

theorem main_exit_code_witness:
  "fst (main full_env (world_status 200) init_state) = Inr 0
   \<and> fst (main Map.empty (world_status 200) init_state) = Inr 1"
proof -
  have a: "fst (main full_env (world_status 200) init_state) = Inr 0"
    using main_exit_code [OF result_pair [OF full_env_azure_openai]
      result_pair [OF full_env_ai_search] result_pair [OF full_env_cosmos_db]
      result_pair [OF full_env_storage_account] result_pair [OF full_env_application_insights]
      result_pair [OF full_env_agent_ids], of init_state]
    by simp
  have m1: "fst (test_azure_openai Map.empty (world_status 200) s) = Inr False" for s
    by (simp add: test_azure_openai_missing)
  have m2: "fst (test_ai_search Map.empty (world_status 200) s) = Inr False" for s
    by (simp add: test_ai_search_missing)
  have m3: "fst (test_cosmos_db Map.empty (world_status 200) s) = Inr False" for s
    by (simp add: test_cosmos_db_missing)
  have m4: "fst (test_storage_account Map.empty (world_status 200) s) = Inr False" for s
    by (simp add: test_storage_account_missing)
  have m5: "fst (test_application_insights Map.empty s) = Inr False" for s
    by (simp add: test_application_insights_missing)
  have m6: "fst (test_agent_ids Map.empty s) = Inr False" for s
    by (simp add: test_agent_ids_result)
  have b: "fst (main Map.empty (world_status 200) init_state) = Inr 1"
    using main_exit_code [OF result_pair [OF m1] result_pair [OF m2] result_pair [OF m3]
      result_pair [OF m4] result_pair [OF m5] result_pair [OF m6], of init_state]
    by simp
  from a b show ?thesis by simp
qed

text \<open>
  Claim C9. When all checks have run, the result mapping has exactly one entry for
  each of the six services, one boolean for each name, and the printed counts of
  passed and failed checks add up to that total of six.
\<close>

theorem main_result_mapping:
  assumes "main env w s = (Inr code, s')"
  shows "\<exists>results s1 passed failed final.
     run_checks env w (print Blank (print Rule (print Title (print Rule s)))) = (Inr results, s1)
     \<and> map fst results = [''Azure OpenAI'', ''AI Search'', ''Cosmos DB'', ''Storage Account'',
          ''Application Insights'', ''Agent IDs'']
     \<and> distinct (map fst results) \<and> length results = 6
     \<and> out s' = out s1 @ [Blank, Rule, Summary, Rule, Passed passed 6, Failed failed 6, final]
     \<and> passed = int (length (filter snd results))
     \<and> passed + failed = 6"
proof -
  from assms obtain results s1 where
    r: "run_checks env w (print Blank (print Rule (print Title (print Rule s)))) = (Inr results, s1)"
    and sm: "summarize results s1 = (Inr code, s')"
    by (rule main_InrE)
  from run_checks_names [OF r] obtain b1 b2 b3 b4 b5 b6 where
    res: "results = [(''Azure OpenAI'', b1), (''AI Search'', b2), (''Cosmos DB'', b3),
      (''Storage Account'', b4), (''Application Insights'', b5), (''Agent IDs'', b6)]"
    by blast
  have names: "map fst results = [''Azure OpenAI'', ''AI Search'', ''Cosmos DB'',
      ''Storage Account'', ''Application Insights'', ''Agent IDs'']"
    by (simp add: res)
  have len: "length results = 6" by (simp add: res)
  have dist: "distinct (map fst results)" unfolding names by simp
  have flt: "filter (\<lambda>v. v) (map snd results) = map snd (filter snd results)"
    by (simp add: filter_map comp_def)
  from summarize_out [of results s1] sm len
  have o: "out s' = out s1 @ [Blank, Rule, Summary, Rule,
      Passed (int (length (filter snd results))) 6,
      Failed (6 - int (length (filter snd results))) 6,
      if list_all (\<lambda>v. v) (map snd results) then AllConfigured else NeedAttention]"
    by (simp add: flt)
  show ?thesis
    using r names dist len o by (intro exI conjI) (assumption | simp)+
qed

theorem main_result_mapping_witness:
  "\<exists>results s1 passed failed final.
     run_checks full_env (world_status 200)
       (print Blank (print Rule (print Title (print Rule init_state)))) = (Inr results, s1)
     \<and> map fst results = [''Azure OpenAI'', ''AI Search'', ''Cosmos DB'', ''Storage Account'',
          ''Application Insights'', ''Agent IDs'']
     \<and> distinct (map fst results) \<and> length results = 6
     \<and> out (snd (main full_env (world_status 200) init_state))
          = out s1 @ [Blank, Rule, Summary, Rule, Passed passed 6, Failed failed 6, final]
     \<and> passed = int (length (filter snd results))
     \<and> passed + failed = 6"
proof -
  have "main full_env (world_status 200) init_state
      = summarize [(''Azure OpenAI'', True), (''AI Search'', True), (''Cosmos DB'', True),
          (''Storage Account'', True), (''Application Insights'', True), (''Agent IDs'', True)]
          (snd (run_checks full_env (world_status 200)
             (print Blank (print Rule (print Title (print Rule init_state))))))"
    by (rule main_from_results) (rule result_pair [OF full_env_run_checks])
  then have "fst (main full_env (world_status 200) init_state) = Inr 0"
    by (simp add: summarize_code)
  from main_result_mapping [OF result_pair [OF this]] show ?thesis .
qed

text \<open>
  Claim C8 does not hold of the two HTTP checks. \<open>test_endpoint\<close> catches only
  \<open>RequestException\<close>, while \<open>requests.get\<close> also raises exceptions of other
  classes (a redirect to a URL that cannot be parsed is one cause). Such an exception
  escapes the model-serving check and \<open>main\<close>: the run ends after the banner, with
  one request made and no check reported. The document database check, which catches
  \<open>Exception\<close>, turns the same exception into a false result.
\<close>

theorem unhandled_exception_escapes:
  "fst (test_azure_openai full_env
          (world_raising (Exn OtherException (lit ''Failed to parse: http://.example/'')))
          init_state)
     = Inl (Exn OtherException (lit ''Failed to parse: http://.example/''))
   \<and> fst (main full_env
          (world_raising (Exn OtherException (lit ''Failed to parse: http://.example/'')))
          init_state)
     = Inl (Exn OtherException (lit ''Failed to parse: http://.example/''))
   \<and> out (snd (main full_env
          (world_raising (Exn OtherException (lit ''Failed to parse: http://.example/'')))
          init_state))
     = [Rule, Title, Rule, Blank]
   \<and> length (calls (snd (main full_env
          (world_raising (Exn OtherException (lit ''Failed to parse: http://.example/'')))
          init_state))) = 1
   \<and> fst (test_cosmos_db full_env
          (world_raising (Exn OtherException (lit ''Failed to parse: http://.example/'')))
          init_state) = Inr False"
proof -
  define e where "e = Exn OtherException (lit ''Failed to parse: http://.example/'')"
  have ne: "\<not> is_RequestException e" and ie: "is_Exception e"
    by (simp_all add: e_def is_RequestException_def is_Exception_def)
  have cfg: "test_azure_openai full_env w s =
     test_endpoint w ''Azure OpenAI''
       (py_rstrip (lit ''/'') (lit ''https://oai.example/'')
          @ lit ''/openai/deployments?api-version='' @ lit ''2024-02-01'')
       [(lit ''api-key'', lit ''k1'')] s" for w s
    by (rule test_azure_openai_configured) (simp_all add: full_env_def lit_not_empty)
  have esc: "test_azure_openai full_env (world_raising e) s
      = (Inl e,
         s\<lparr>calls := calls s @ [HttpGet (py_rstrip (lit ''/'') (lit ''https://oai.example/'')
          @ lit ''/openai/deployments?api-version='' @ lit ''2024-02-01'')
          [(lit ''api-key'', lit ''k1'')] 10]\<rparr>)" for s
    by (simp add: cfg test_endpoint_def requests_get_def world_raising_def ne)
  have m: "main full_env (world_raising e) init_state
      = (Inl e,
         (print Blank (print Rule (print Title (print Rule init_state))))
           \<lparr>calls := calls (print Blank (print Rule (print Title (print Rule init_state))))
              @ [HttpGet (py_rstrip (lit ''/'') (lit ''https://oai.example/'')
          @ lit ''/openai/deployments?api-version='' @ lit ''2024-02-01'')
          [(lit ''api-key'', lit ''k1'')] 10]\<rparr>)"
    by (simp add: main_def run_checks_def bind_def esc)
  have c: "test_cosmos_db full_env w s =
     try_except_Exception
       (bind (sdk_call w DefaultAzureCredential) (\<lambda>_.
        bind (sdk_call w (CosmosClient (lit ''https://cosmos.example''))) (\<lambda>_.
        bind (sdk_call w (GetDatabaseClient (lit ''db''))) (\<lambda>_.
        bind (sdk_call w DatabaseRead) (\<lambda>_.
        (\<lambda>s'. (Inr True, print (CosmosAccessible (lit ''db'')) s')))))))
       (\<lambda>ex s'. (Inr False, print (CosmosFailed (take 100 (str_of_exn ex))) s'))
       s" for w s
    by (rule test_cosmos_db_configured) (simp_all add: full_env_def lit_not_empty)
  have k: "fst (test_cosmos_db full_env (world_raising e) init_state) = Inr False"
    by (simp add: c try_except_Exception_def bind_def sdk_call_def world_raising_def ie)
  have a: "fst (test_azure_openai full_env (world_raising e) init_state) = Inl e"
    by (simp add: esc)
  have f: "fst (main full_env (world_raising e) init_state) = Inl e"
    by (simp add: m)
  have o: "out (snd (main full_env (world_raising e) init_state)) = [Rule, Title, Rule, Blank]"
    unfolding m by (simp add: init_state_def print_def)
  have n: "length (calls (snd (main full_env (world_raising e) init_state))) = 1"
    unfolding m by (simp add: init_state_def print_def)
  from a f o n k show ?thesis
    unfolding e_def by (intro conjI)
qed

end
